theory Spec2Isabelle
  imports Complex_Main
begin

section \<open>The quirks-mode SVG renderer: load, text normalisation, measurement\<close>

text \<open>
  A shallow embedding of \<^verbatim>\<open>src/svg-renderer.js\<close> (class \<^verbatim>\<open>SvgRenderer\<close>).
  The DOM is a tree of values, the renderer's fields and the page's body are a record that
  every method takes and returns, and an exception is the \<open>Inl\<close> of the outcome: a
  method that throws still returns the fields as they stood when it threw.

  JavaScript numbers are modelled by \<open>real\<close>: \<^verbatim>\<open>NaN\<close> is the \<open>None\<close> that
  \<^verbatim>\<open>Number\<close> returns, and rounding and the infinities of IEEE doubles are outside the
  model. Where the source computes a sum, a difference, a product or a quotient the model
  has the exact value of that expression and the source the double nearest to it; a
  maximum is the same in both. So the properties below say which expression is computed
  and stored, and none of them states an identity between two results that would hold
  only without rounding. Identifiers that start with an underscore in the source lose it
  here.
\<close>

subsection \<open>The document tree\<close>

text \<open>
  A node is an element (local name, attributes in document order, child nodes), a text
  node, or a node that carries no text for its ancestors (a comment, a processing
  instruction). A document is the list of its child nodes.
\<close>

type_synonym attrs = "(string \<times> string) list"

datatype node =
    Element string attrs "node list"
  | Text string
  | Comment string

type_synonym document = "node list"

fun isElement :: "node \<Rightarrow> bool" where
  "isElement (Element n ats cs) = True"
| "isElement (Text t) = False"
| "isElement (Comment t) = False"

text \<open>\<^verbatim>\<open>document.documentElement\<close>: the first element child, \<^verbatim>\<open>null\<close> when there is none.\<close>

fun documentElement :: "document \<Rightarrow> node option" where
  "documentElement [] = None"
| "documentElement (c # cs) = (if isElement c then Some c else documentElement cs)"

text \<open>
  The renderer keeps \<^verbatim>\<open>_svgTag\<close>, a reference to the document element of
  \<^verbatim>\<open>_svgDom\<close>, and mutates the tree through it. With trees as values the write through the
  alias is made on both: \<open>setDocumentElement\<close> stores the rewritten root in the document.
  \<open>removeDocumentElement\<close> is what \<^verbatim>\<open>appendChild\<close> does to the document a node is
  moved out of.
\<close>

fun setDocumentElement :: "document \<Rightarrow> node \<Rightarrow> document" where
  "setDocumentElement [] r = []"
| "setDocumentElement (c # cs) r = (if isElement c then r # cs else c # setDocumentElement cs r)"

fun removeDocumentElement :: "document \<Rightarrow> document" where
  "removeDocumentElement [] = []"
| "removeDocumentElement (c # cs) = (if isElement c then cs else c # removeDocumentElement cs)"

text \<open>
  A write through a reference to a root reaches a document only when the reference is to
  the root of that document.
\<close>

definition writeThrough :: "node \<Rightarrow> node \<Rightarrow> document \<Rightarrow> document" where
  "writeThrough tag tag' d =
     (if documentElement d = Some tag then setDocumentElement d tag' else d)"

definition moveOut :: "node \<Rightarrow> document \<Rightarrow> document" where
  "moveOut tag d = (if documentElement d = Some tag then removeDocumentElement d else d)"

fun localName :: "node \<Rightarrow> string option" where
  "localName (Element n ats cs) = Some n"
| "localName (Text t) = None"
| "localName (Comment t) = None"

fun childNodes :: "node \<Rightarrow> node list" where
  "childNodes (Element n ats cs) = cs"
| "childNodes (Text t) = []"
| "childNodes (Comment t) = []"

text \<open>\<^verbatim>\<open>getAttribute\<close> returns \<^verbatim>\<open>null\<close> (here \<open>None\<close>) for an absent attribute.\<close>

definition getAttribute :: "attrs \<Rightarrow> string \<Rightarrow> string option" where
  "getAttribute ats k = map_of ats k"

text \<open>\<^verbatim>\<open>setAttribute\<close> overwrites the value in place, or appends a new attribute.\<close>

fun setAttribute :: "attrs \<Rightarrow> string \<Rightarrow> string \<Rightarrow> attrs" where
  "setAttribute [] k v = [(k, v)]"
| "setAttribute ((k', v') # ats) k v =
     (if k' = k then (k, v) # ats else (k', v') # setAttribute ats k v)"

definition removeAttribute :: "attrs \<Rightarrow> string \<Rightarrow> attrs" where
  "removeAttribute ats k = filter (\<lambda>kv. fst kv \<noteq> k) ats"

text \<open>
  JavaScript truthiness of what \<^verbatim>\<open>getAttribute\<close> returns: \<^verbatim>\<open>null\<close> and the empty
  string are falsy, every other string is truthy.
\<close>

fun truthy :: "string option \<Rightarrow> bool" where
  "truthy None = False"
| "truthy (Some v) = (v \<noteq> [])"

text \<open>
  \<^verbatim>\<open>textContent\<close> of an element: the text of its descendant text nodes, in document
  order. Comments add nothing to it.
\<close>

fun textContent :: "node \<Rightarrow> string" where
  "textContent (Element n ats cs) = concat (map textContent cs)"
| "textContent (Text t) = t"
| "textContent (Comment t) = []"

definition childElementCount :: "node list \<Rightarrow> nat" where
  "childElementCount cs = length (filter isElement cs)"

text \<open>
  Assigning \<^verbatim>\<open>textContent\<close> replaces all children: by nothing for the empty string, by one
  text node otherwise.
\<close>

definition textChildren :: "string \<Rightarrow> node list" where
  "textChildren t = (if t = [] then [] else [Text t])"

text \<open>\<^verbatim>\<open>String.prototype.split\<close> on one separator character; never the empty list.\<close>

fun split :: "char \<Rightarrow> string \<Rightarrow> string list" where
  "split sep [] = [[]]"
| "split sep (c # cs) =
     (if c = sep then [] # split sep cs
      else (case split sep cs of [] \<Rightarrow> [[c]] | l # ls \<Rightarrow> (c # l) # ls))"

text \<open>All nodes of a tree in document order, the root first.\<close>

fun nodes :: "node \<Rightarrow> node list" where
  "nodes (Element n ats cs) = Element n ats cs # concat (map nodes cs)"
| "nodes (Text t) = [Text t]"
| "nodes (Comment t) = [Comment t]"

subsection \<open>The platform and the collaborators\<close>

text \<open>
  What the renderer calls and does not define: the browser's \<^verbatim>\<open>DOMParser\<close>,
  \<^verbatim>\<open>XMLSerializer\<close> and \<^verbatim>\<open>getBBox\<close> (\<open>None\<close> when it throws), \<^verbatim>\<open>Number\<close> on a
  string (\<open>None\<close> for \<^verbatim>\<open>NaN\<close>), the conversion of a number to a string that
  \<^verbatim>\<open>setAttribute\<close> and a template literal apply, and \<^verbatim>\<open>convertFonts\<close> of the module
  \<^verbatim>\<open>font-converter\<close>, which rewrites a tree in place.
\<close>

record rect =
  x :: real
  y :: real
  width :: real
  height :: real

record platform =
  parseFromString :: "string \<Rightarrow> document"
  serializeToString :: "document \<Rightarrow> string"
  getBBox :: "node \<Rightarrow> rect option"
  Number :: "string \<Rightarrow> real option"
  numberToString :: "real \<Rightarrow> string"
  convertFonts :: "node \<Rightarrow> node"

text \<open>
  Modelled from the spec: \<^verbatim>\<open>createSVGElement\<close> of \<^verbatim>\<open>font-inliner\<close>, which is not among
  the sources, makes the new child line node: a fresh element of the given tag with no
  attributes and no children.
\<close>

definition createSVGElement :: "string \<Rightarrow> node" where
  "createSVGElement tag = Element tag [] []"

subsection \<open>The renderer's state\<close>

datatype error =
    InvalidDocument
  | TypeError
  | MeasurementFailure

text \<open>
  \<open>InvalidDocument\<close> is the \<^verbatim>\<open>Error('Document does not appear to be SVG.')\<close> of
  \<^verbatim>\<open>loadString\<close>, \<open>TypeError\<close> a property read on \<^verbatim>\<open>null\<close> or \<^verbatim>\<open>undefined\<close>,
  \<open>MeasurementFailure\<close> whatever \<^verbatim>\<open>getBBox\<close> throws.

  The fields of the renderer, and \<open>body\<close>: the children of the page's
  \<^verbatim>\<open>document.body\<close>, the live rendering context the tree is attached to for measuring.
  \<open>svgDom\<close> and \<open>svgTag\<close> are \<open>None\<close> before the first load.
\<close>

record state =
  body :: "node list"
  cachedImage :: "string option"
  svgDom :: "document option"
  svgTag :: "node option"
  measurements :: rect

text \<open>The constructor.\<close>

definition constructor :: "node list \<Rightarrow> state" where
  "constructor page =
     \<lparr>body = page, cachedImage = None, svgDom = None, svgTag = None,
      measurements = \<lparr>x = 0, y = 0, width = 0, height = 0\<rparr>\<rparr>"

subsection \<open>Text quirks\<close>

text \<open>
  Lines 109 to 122, on the attributes of one text element: \<^verbatim>\<open>x\<close> and \<^verbatim>\<open>y\<close> go,
  the baseline is set, and a font size and family are provided where
  \<^verbatim>\<open>!getAttribute(...)\<close> holds.
\<close>

definition quirkAttributes :: "attrs \<Rightarrow> attrs" where
  "quirkAttributes ats =
     (let a1 = removeAttribute ats ''x'';
          a2 = removeAttribute a1 ''y'';
          a3 = setAttribute a2 ''alignment-baseline'' ''text-before-edge'';
          a4 = (if \<not> truthy (getAttribute a3 ''font-size'')
                then setAttribute a3 ''font-size'' ''14'' else a3);
          a5 = (if \<not> truthy (getAttribute a4 ''font-family'')
                then setAttribute a4 ''font-family'' ''Helvetica'' else a4)
      in a5)"

text \<open>Lines 131 to 134: the \<^verbatim>\<open>tspan\<close> of one line.\<close>

definition tspanNode :: "string \<Rightarrow> node" where
  "tspanNode line =
     (case createSVGElement ''tspan'' of
        Element n ats cs \<Rightarrow>
          Element n (setAttribute (setAttribute ats ''x'' ''0'') ''dy'' ''1.2em'')
            (textChildren line)
      | other \<Rightarrow> other)"

text \<open>Lines 127 to 136: the children of a text element after its line breaks are fixed.\<close>

definition fixLineBreaks :: "string \<Rightarrow> node list" where
  "fixLineBreaks t = map tspanNode (split (CHR 0x0A) t)"

text \<open>
  Lines 109 to 137, the body of the loop, on one text element: its attributes are
  rewritten, and when it has text and no element child its children are replaced by one
  \<^verbatim>\<open>tspan\<close> per line.
\<close>

fun applyQuirks :: "node \<Rightarrow> node" where
  "applyQuirks (Element n ats cs) =
     (let t = textContent (Element n ats cs) in
      if t \<noteq> [] \<and> childElementCount cs = 0
      then Element n (quirkAttributes ats) (fixLineBreaks t)
      else Element n (quirkAttributes ats) cs)"
| "applyQuirks (Text t) = Text t"
| "applyQuirks (Comment t) = Comment t"

text \<open>
  Lines 97 to 106. The closure \<^verbatim>\<open>collectText\<close> pushes a reference to every element
  named \<^verbatim>\<open>text\<close>, in document order. A reference is modelled by the position of the
  node: the indices of the children that lead to it from the root.
\<close>

fun collectText :: "node \<Rightarrow> nat list list"
  and collectTextFrom :: "nat \<Rightarrow> node list \<Rightarrow> nat list list" where
  "collectText (Element n ats cs) =
     (if n = ''text'' then [[]] else []) @ collectTextFrom 0 cs"
| "collectText (Text t) = []"
| "collectText (Comment t) = []"
| "collectTextFrom i [] = []"
| "collectTextFrom i (c # cs) = map ((#) i) (collectText c) @ collectTextFrom (Suc i) cs"

text \<open>The node at a position, and a mutation of the node at a position.\<close>

fun nodeAt :: "nat list \<Rightarrow> node \<Rightarrow> node option" where
  "nodeAt [] nd = Some nd"
| "nodeAt (i # p) (Element n ats cs) = (if i < length cs then nodeAt p (cs ! i) else None)"
| "nodeAt (i # p) (Text t) = None"
| "nodeAt (i # p) (Comment t) = None"

fun updateAt :: "nat list \<Rightarrow> (node \<Rightarrow> node) \<Rightarrow> node \<Rightarrow> node" where
  "updateAt [] f nd = f nd"
| "updateAt (i # p) f (Element n ats cs) =
     (if i < length cs then Element n ats (cs[i := updateAt p f (cs ! i)])
      else Element n ats cs)"
| "updateAt (i # p) f (Text t) = Text t"
| "updateAt (i # p) f (Comment t) = Comment t"

text \<open>Lines 96 to 138: collect, then rewrite each collected element in turn.\<close>

definition transformTextElements :: "node \<Rightarrow> node" where
  "transformTextElements r = fold (\<lambda>p. updateAt p applyQuirks) (collectText r) r"

text \<open>
  The same pass as one recursion over the tree. A text element loses its children only
  when it has no element child, so no collected element lies in a subtree that is replaced
  and the loop never reaches a node that left the tree (\<open>transformTextElements_rewriteText\<close>
  below).
\<close>

fun rewriteText :: "node \<Rightarrow> node" where
  "rewriteText (Element n ats cs) =
     (if n = ''text'' then
        (let t = textContent (Element n ats cs) in
         if t \<noteq> [] \<and> childElementCount cs = 0
         then Element n (quirkAttributes ats) (fixLineBreaks t)
         else Element n (quirkAttributes ats) (map rewriteText cs))
      else Element n ats (map rewriteText cs))"
| "rewriteText (Text t) = Text t"
| "rewriteText (Comment t) = Comment t"

definition transformText :: "platform \<Rightarrow> state \<Rightarrow> (error + unit) \<times> state" where
  "transformText P s =
     (case svgTag s of
        None \<Rightarrow> (Inl TypeError, s)
      | Some tag \<Rightarrow>
          (let tag' = convertFonts P (transformTextElements tag)
           in (Inr (), s\<lparr>svgTag := Some tag',
                          svgDom := map_option (writeThrough tag tag') (svgDom s)\<rparr>)))"

subsection \<open>The largest stroke width\<close>

text \<open>\<^verbatim>\<open>Number(v) || 0\<close>.\<close>

definition numberOrZero :: "platform \<Rightarrow> string \<Rightarrow> real" where
  "numberOrZero P v = (case Number P v of None \<Rightarrow> 0 | Some r \<Rightarrow> r)"

text \<open>
  The closure \<^verbatim>\<open>collectStrokeWidths\<close> with the variable \<^verbatim>\<open>largestStrokeWidth\<close> it
  updates passed through. Only elements have \<^verbatim>\<open>getAttribute\<close>.
\<close>

fun collectStrokeWidths :: "platform \<Rightarrow> node \<Rightarrow> real \<Rightarrow> real" where
  "collectStrokeWidths P (Element n ats cs) largest =
     (let l1 = (if truthy (getAttribute ats ''stroke'') then max largest 1 else largest);
          l2 = (case getAttribute ats ''stroke-width'' of
                  None \<Rightarrow> l1
                | Some v \<Rightarrow> if v \<noteq> [] then max l1 (numberOrZero P v) else l1)
      in fold (collectStrokeWidths P) cs l2)"
| "collectStrokeWidths P (Text t) largest = largest"
| "collectStrokeWidths P (Comment t) largest = largest"

definition findLargestStrokeWidth :: "platform \<Rightarrow> node \<Rightarrow> real" where
  "findLargestStrokeWidth P rootNode = collectStrokeWidths P rootNode 0"

subsection \<open>Serialisation\<close>

text \<open>
  \<^verbatim>\<open>toString()\<close> as the measurement pass calls it, with \<^verbatim>\<open>shouldInjectFonts\<close>
  undefined: the document is serialised as it is. The branch that inlines the fonts into a
  copy is not modelled.
\<close>

definition toString :: "platform \<Rightarrow> document \<Rightarrow> string" where
  "toString P doc = serializeToString P doc"

subsection \<open>Measurement\<close>

text \<open>Lines 217 to 221: the bounding box enlarged by half the stroke width on every side.\<close>

definition enlarge :: "rect \<Rightarrow> real \<Rightarrow> rect" where
  "enlarge bbox halfStrokeWidth =
     \<lparr>x = x bbox - halfStrokeWidth,
      y = y bbox - halfStrokeWidth,
      width = width bbox + halfStrokeWidth * 2,
      height = height bbox + halfStrokeWidth * 2\<rparr>"

text \<open>Lines 224 to 227: the three attributes written on the root.\<close>

definition viewBoxString :: "platform \<Rightarrow> rect \<Rightarrow> string" where
  "viewBoxString P m =
     numberToString P (x m) @ '' '' @ numberToString P (y m) @ '' '' @
     numberToString P (width m) @ '' '' @ numberToString P (height m)"

definition setMeasurements :: "platform \<Rightarrow> rect \<Rightarrow> node \<Rightarrow> node" where
  "setMeasurements P m r =
     (case r of
        Element n ats cs \<Rightarrow>
          Element n
            (setAttribute
               (setAttribute (setAttribute ats ''width'' (numberToString P (width m)))
                  ''height'' (numberToString P (height m)))
               ''viewBox'' (viewBoxString P m))
            cs
      | other \<Rightarrow> other)"

text \<open>
  Lines 198 and 199: the new \<^verbatim>\<open>span\<close> becomes the last child of the body and the
  tree is moved into it, out of the document it is the root of.
\<close>

definition attach :: "node \<Rightarrow> state \<Rightarrow> state" where
  "attach tag s =
     s\<lparr>body := body s @ [Element ''span'' [] [tag]],
       svgDom := map_option (moveOut tag) (svgDom s)\<rparr>"

text \<open>Line 204: \<^verbatim>\<open>removeChild\<close> of the child that stands at a position.\<close>

definition removeChildAt :: "nat \<Rightarrow> node list \<Rightarrow> node list" where
  "removeChildAt i cs = take i cs @ drop (Suc i) cs"

definition transformMeasurements :: "platform \<Rightarrow> state \<Rightarrow> (error + unit) \<times> state" where
  "transformMeasurements P s =
     (case svgDom s of
        None \<Rightarrow> (Inl TypeError, s)
      | Some doc \<Rightarrow>
     (case svgTag s of
        None \<Rightarrow> (Inl TypeError, s)
      | Some tag \<Rightarrow>
          (let svgText = toString P doc;
               svgSpot = length (body s);
               s1 = attach tag s;
               taken = getBBox P tag;
               s2 = s1\<lparr>body := removeChildAt svgSpot (body s1)\<rparr>
           in (case taken of
                 None \<Rightarrow> (Inl MeasurementFailure, s2)
               | Some bbox \<Rightarrow>
                   (let doc' = parseFromString P svgText;
                        s3 = s2\<lparr>svgDom := Some doc', svgTag := documentElement doc'\<rparr>
                    in (case documentElement doc' of
                          None \<Rightarrow> (Inl TypeError, s3)
                        | Some r \<Rightarrow>
                            (let halfStrokeWidth = findLargestStrokeWidth P r / 2;
                                 m = enlarge bbox halfStrokeWidth;
                                 r' = setMeasurements P m r
                             in (Inr (),
                                 s3\<lparr>svgDom := Some (setDocumentElement doc' r'),
                                    svgTag := Some r',
                                    measurements := m\<rparr>))))))))"

subsection \<open>Loading\<close>

definition loadString :: "platform \<Rightarrow> string \<Rightarrow> state \<Rightarrow> (error + unit) \<times> state" where
  "loadString P svgString s =
     (let s1 = s\<lparr>cachedImage := None\<rparr>;
          doc = parseFromString P svgString;
          s2 = s1\<lparr>svgDom := Some doc\<rparr>
      in if length doc < 1 then (Inl InvalidDocument, s2)
         else (case documentElement doc of
                 None \<Rightarrow> (Inl TypeError, s2)
               | Some r \<Rightarrow>
                   if localName r \<noteq> Some ''svg'' then (Inl InvalidDocument, s2)
                   else (let s3 = s2\<lparr>svgTag := Some r\<rparr>
                         in (case transformText P s3 of
                               (Inl e, s4) \<Rightarrow> (Inl e, s4)
                             | (Inr u, s4) \<Rightarrow> transformMeasurements P s4))))"

text \<open>\<^verbatim>\<open>measure\<close>: the load, then the measurements it left.\<close>

definition measure_svg :: "platform \<Rightarrow> string \<Rightarrow> state \<Rightarrow> (error + rect) \<times> state" where
  "measure_svg P svgString s =
     (case loadString P svgString s of
        (Inl e, s') \<Rightarrow> (Inl e, s')
      | (Inr u, s') \<Rightarrow> (Inr (measurements s'), s'))"

subsection \<open>Notions the properties are stated with\<close>

text \<open>
  What one node adds to the largest stroke width, read off \<open>collectStrokeWidths\<close>: the
  larger of 1 for a truthy \<^verbatim>\<open>stroke\<close> and of \<^verbatim>\<open>Number(v) || 0\<close> for a truthy
  \<^verbatim>\<open>stroke-width\<close>; nothing below 0.
\<close>

fun strokeContribution :: "platform \<Rightarrow> node \<Rightarrow> real" where
  "strokeContribution P (Element n ats cs) =
     max (if truthy (getAttribute ats ''stroke'') then 1 else 0)
         (case getAttribute ats ''stroke-width'' of
            None \<Rightarrow> 0
          | Some v \<Rightarrow> if v \<noteq> [] then numberOrZero P v else 0)"
| "strokeContribution P (Text t) = 0"
| "strokeContribution P (Comment t) = 0"

text \<open>
  The stroke width in the specification's words: over all elements the maximum of 1
  if a \<^verbatim>\<open>stroke\<close> attribute is present and no explicit \<^verbatim>\<open>stroke-width\<close>; else the
  numeric value of \<^verbatim>\<open>stroke-width\<close> if present and it parses to a non-negative number;
  else 0.
\<close>

fun specifiedContribution :: "platform \<Rightarrow> node \<Rightarrow> real" where
  "specifiedContribution P (Element n ats cs) =
     (if getAttribute ats ''stroke'' \<noteq> None \<and> getAttribute ats ''stroke-width'' = None then 1
      else (case getAttribute ats ''stroke-width'' of
              None \<Rightarrow> 0
            | Some v \<Rightarrow> (case Number P v of
                          None \<Rightarrow> 0
                        | Some w \<Rightarrow> if 0 \<le> w then w else 0)))"
| "specifiedContribution P (Text t) = 0"
| "specifiedContribution P (Comment t) = 0"

definition specifiedStrokeWidth :: "platform \<Rightarrow> node \<Rightarrow> real" where
  "specifiedStrokeWidth P r = Max (set (map (specifiedContribution P) (nodes r)))"

text \<open>
  A tree extended by one node: \<open>e\<close> becomes child number \<open>k\<close> of the element at a
  position; \<open>None\<close> when there is no element there.
\<close>

fun insertChildAt :: "nat list \<Rightarrow> nat \<Rightarrow> node \<Rightarrow> node \<Rightarrow> node option" where
  "insertChildAt [] k e (Element n ats cs) = Some (Element n ats (take k cs @ e # drop k cs))"
| "insertChildAt (i # p) k e (Element n ats cs) =
     (if i < length cs
      then (case insertChildAt p k e (cs ! i) of
              None \<Rightarrow> None
            | Some c' \<Rightarrow> Some (Element n ats (cs[i := c'])))
      else None)"
| "insertChildAt p k e (Text t) = None"
| "insertChildAt p k e (Comment t) = None"

subsection \<open>A platform to run the renderer on\<close>

text \<open>
  A small stand-in for the browser: a serialiser without escaping, a parser that knows
  the serialised form of a few documents and answers every other string with a
  \<^verbatim>\<open>parsererror\<close> document, a bounding box for every tree that has content, numbers
  from a table, and font modules that change nothing.
\<close>

fun stubSerializeNode :: "node \<Rightarrow> string" where
  "stubSerializeNode (Element n ats cs) =
     ''<'' @ n @
     concat (map (\<lambda>kv. '' '' @ fst kv @ ''='' @ [CHR 0x22] @ snd kv @ [CHR 0x22]) ats) @
     (if cs = [] then ''/>''
      else ''>'' @ concat (map stubSerializeNode cs) @ ''</'' @ n @ ''>'')"
| "stubSerializeNode (Text t) = t"
| "stubSerializeNode (Comment t) = ''<!--'' @ t @ ''-->''"

definition stubSerialize :: "document \<Rightarrow> string" where
  "stubSerialize d = concat (map stubSerializeNode d)"

definition emptySvg :: node where
  "emptySvg = Element ''svg'' [] []"

definition plainSvg :: node where
  "plainSvg = Element ''svg'' [] [Element ''g'' [] []]"

definition thinStrokeSvg :: node where
  "thinStrokeSvg =
     Element ''svg'' [] [Element ''g'' [] [],
       Element ''rect'' [(''stroke'', ''red''), (''stroke-width'', ''0.5'')] []]"

definition narrowSvg :: node where
  "narrowSvg = Element ''svg'' [] [Element ''rect'' [(''stroke-width'', ''0.5'')] []]"

definition widerSvg :: node where
  "widerSvg =
     Element ''svg'' []
       [Element ''rect'' [(''stroke-width'', ''0.5'')] [],
        Element ''circle'' [(''stroke-width'', ''3'')] []]"

text \<open>
  The scenario of the specification, \<^verbatim>\<open><svg><text stroke="red">Hi\nThere</text></svg>\<close>,
  as it is parsed, as it is after the text pass, and as it is after the measurement.
\<close>

definition scenarioSvg :: node where
  "scenarioSvg =
     Element ''svg'' [] [Element ''text'' [(''stroke'', ''red'')] [Text ''Hi\<newline>There'']]"

definition scenarioText :: node where
  "scenarioText =
     Element ''text''
       [(''stroke'', ''red''), (''alignment-baseline'', ''text-before-edge''),
        (''font-size'', ''14''), (''font-family'', ''Helvetica'')]
       [Element ''tspan'' [(''x'', ''0''), (''dy'', ''1.2em'')] [Text ''Hi''],
        Element ''tspan'' [(''x'', ''0''), (''dy'', ''1.2em'')] [Text ''There'']]"

definition normalizedScenarioSvg :: node where
  "normalizedScenarioSvg = Element ''svg'' [] [scenarioText]"

definition measuredScenarioSvg :: node where
  "measuredScenarioSvg =
     Element ''svg''
       [(''width'', ''11''), (''height'', ''21''), (''viewBox'', ''0.5 1.5 11 21'')]
       [scenarioText]"

definition knownDocuments :: "document list" where
  "knownDocuments =
     [[Element ''notsvg'' [] []], [emptySvg], [plainSvg], [thinStrokeSvg], [narrowSvg],
      [widerSvg], [scenarioSvg], [normalizedScenarioSvg]]"

definition stubParse :: "string \<Rightarrow> document" where
  "stubParse t =
     (case find (\<lambda>d. stubSerialize d = t) knownDocuments of
        Some d \<Rightarrow> d
      | None \<Rightarrow> [Element ''parsererror'' [] [Text t]])"

definition stubGetBBox :: "node \<Rightarrow> rect option" where
  "stubGetBBox nd =
     (if childNodes nd = [] then None
      else Some \<lparr>x = 1, y = 2, width = 10, height = 20\<rparr>)"

definition numberTable :: "(string \<times> real) list" where
  "numberTable =
     [(''0'', 0), (''0.5'', 1 / 2), (''1'', 1), (''1.5'', 3 / 2), (''1.75'', 7 / 4),
      (''3'', 3), (''-0.5'', - (1 / 2)), (''0.75'', 3 / 4), (''10'', 10), (''10.5'', 21 / 2),
      (''11'', 11), (''13'', 13), (''20'', 20), (''20.5'', 41 / 2), (''21'', 21), (''23'', 23)]"

definition stubNumber :: "string \<Rightarrow> real option" where
  "stubNumber v = map_of numberTable v"

definition stubNumberToString :: "real \<Rightarrow> string" where
  "stubNumberToString w =
     (case find (\<lambda>kv. snd kv = w) numberTable of
        Some kv \<Rightarrow> fst kv
      | None \<Rightarrow> ''NaN'')"

definition stubPlatform :: platform where
  "stubPlatform =
     \<lparr>parseFromString = stubParse,
      serializeToString = stubSerialize,
      getBBox = stubGetBBox,
      Number = stubNumber,
      numberToString = stubNumberToString,
      convertFonts = (\<lambda>nd. nd)\<rparr>"

text \<open>
  A second platform, whose font conversion rewrites a family name on the text elements
  and leaves everything else as it finds it. Font resolution is allowed to do so: it
  resolves \<^verbatim>\<open>font-family\<close> references.
\<close>

fun renameHelvetica :: "node \<Rightarrow> node" where
  "renameHelvetica (Element n ats cs) =
     Element n
       (if n = ''text'' \<and> getAttribute ats ''font-family'' = Some ''Helvetica''
        then setAttribute ats ''font-family'' ''Sans Serif'' else ats)
       (map renameHelvetica cs)"
| "renameHelvetica (Text t) = Text t"
| "renameHelvetica (Comment t) = Comment t"

definition renamingPlatform :: platform where
  "renamingPlatform = stubPlatform\<lparr>convertFonts := renameHelvetica\<rparr>"

text \<open>
  The renderer after it has loaded \<^verbatim>\<open><svg><rect stroke-width="0.5"/></svg>\<close> on that
  platform (\<open>loadString_narrowSvg\<close> below) and has drawn it, so that an image is cached.
\<close>

definition measuredNarrowSvg :: node where
  "measuredNarrowSvg =
     Element ''svg''
       [(''width'', ''10.5''), (''height'', ''20.5''), (''viewBox'', ''0.75 1.75 10.5 20.5'')]
       [Element ''rect'' [(''stroke-width'', ''0.5'')] []]"

definition loadedState :: state where
  "loadedState =
     \<lparr>body = [], cachedImage = None, svgDom = Some [measuredNarrowSvg],
      svgTag = Some measuredNarrowSvg,
      measurements = \<lparr>x = 3 / 4, y = 7 / 4, width = 21 / 2, height = 41 / 2\<rparr>\<rparr>"

text \<open>The renderer about to measure a document that has root \<open>r\<close> and nothing else.\<close>

definition readyState :: "node \<Rightarrow> state" where
  "readyState r =
     \<lparr>body = [], cachedImage = None, svgDom = Some [r], svgTag = Some r,
      measurements = \<lparr>x = 0, y = 0, width = 0, height = 0\<rparr>\<rparr>"

definition drawnState :: state where
  "drawnState = loadedState\<lparr>cachedImage := Some ''data:image/svg+xml;utf8,...''\<rparr>"

section \<open>Properties\<close>

subsection \<open>Attributes\<close>

lemma getAttribute_setAttribute:
  "getAttribute (setAttribute ats k v) k' = (if k' = k then Some v else getAttribute ats k')"
  by (induction ats) (auto simp: getAttribute_def)

lemma getAttribute_removeAttribute:
  "getAttribute (removeAttribute ats k) k' = (if k' = k then None else getAttribute ats k')"
  by (induction ats) (auto simp: getAttribute_def removeAttribute_def)

lemma removeAttribute_absent:
  "getAttribute ats k = None \<Longrightarrow> removeAttribute ats k = ats"
  by (induction ats) (auto simp: getAttribute_def removeAttribute_def split: if_splits)

lemma setAttribute_same:
  "getAttribute ats k = Some v \<Longrightarrow> setAttribute ats k v = ats"
  by (induction ats) (auto simp: getAttribute_def split: if_splits)

lemma quirkAttributes_x: "getAttribute (quirkAttributes ats) ''x'' = None"
  by (simp add: quirkAttributes_def Let_def getAttribute_setAttribute getAttribute_removeAttribute)

lemma quirkAttributes_y: "getAttribute (quirkAttributes ats) ''y'' = None"
  by (simp add: quirkAttributes_def Let_def getAttribute_setAttribute getAttribute_removeAttribute)

lemma quirkAttributes_baseline:
  "getAttribute (quirkAttributes ats) ''alignment-baseline'' = Some ''text-before-edge''"
  by (simp add: quirkAttributes_def Let_def getAttribute_setAttribute getAttribute_removeAttribute)

lemma quirkAttributes_font_size:
  "getAttribute (quirkAttributes ats) ''font-size'' =
     (if truthy (getAttribute ats ''font-size'') then getAttribute ats ''font-size''
      else Some ''14'')"
  by (simp add: quirkAttributes_def Let_def getAttribute_setAttribute getAttribute_removeAttribute)

lemma quirkAttributes_font_family:
  "getAttribute (quirkAttributes ats) ''font-family'' =
     (if truthy (getAttribute ats ''font-family'') then getAttribute ats ''font-family''
      else Some ''Helvetica'')"
  by (simp add: quirkAttributes_def Let_def getAttribute_setAttribute getAttribute_removeAttribute)

lemma quirkAttributes_idem: "quirkAttributes (quirkAttributes ats) = quirkAttributes ats"
proof -
  let ?a = "quirkAttributes ats"
  have 1: "removeAttribute ?a ''x'' = ?a"
    by (rule removeAttribute_absent[OF quirkAttributes_x])
  have 2: "removeAttribute ?a ''y'' = ?a"
    by (rule removeAttribute_absent[OF quirkAttributes_y])
  have 3: "setAttribute ?a ''alignment-baseline'' ''text-before-edge'' = ?a"
    by (rule setAttribute_same[OF quirkAttributes_baseline])
  have 4: "truthy (getAttribute ?a ''font-size'')"
    by (cases "getAttribute ats ''font-size''") (auto simp: quirkAttributes_font_size)
  have 5: "truthy (getAttribute ?a ''font-family'')"
    by (cases "getAttribute ats ''font-family''") (auto simp: quirkAttributes_font_family)
  have "quirkAttributes ?a =
     (let a1 = removeAttribute ?a ''x'';
          a2 = removeAttribute a1 ''y'';
          a3 = setAttribute a2 ''alignment-baseline'' ''text-before-edge'';
          a4 = (if \<not> truthy (getAttribute a3 ''font-size'')
                then setAttribute a3 ''font-size'' ''14'' else a3);
          a5 = (if \<not> truthy (getAttribute a4 ''font-family'')
                then setAttribute a4 ''font-family'' ''Helvetica'' else a4)
      in a5)"
    by (rule quirkAttributes_def)
  also have "\<dots> = ?a"
    unfolding Let_def 1 2 3 using 4 5 by simp
  finally show ?thesis .
qed

subsection \<open>The text pass as a recursion\<close>

lemma isElement_rewriteText [simp]: "isElement (rewriteText nd) = isElement nd"
  by (cases nd) (auto simp: Let_def)

lemma childElementCount_map_rewriteText [simp]:
  "childElementCount (map rewriteText cs) = childElementCount cs"
  by (induction cs) (auto simp: childElementCount_def)

lemma rewriteText_no_elements:
  "childElementCount cs = 0 \<Longrightarrow> map rewriteText cs = cs"
proof (induction cs)
  case Nil
  then show ?case by simp
next
  case (Cons c cs)
  then show ?case by (cases c) (auto simp: childElementCount_def split: if_splits)
qed

lemma split_not_Nil [simp]: "split sep t \<noteq> []"
  by (induction t) (auto split: list.splits)


lemma tspanNode_eq:
  "tspanNode l =
     Element ''tspan'' [(''x'', ''0''), (''dy'', ''1.2em'')] (if l = [] then [] else [Text l])"
  by (simp add: tspanNode_def createSVGElement_def textChildren_def)

lemma isElement_tspanNode [simp]: "isElement (tspanNode l)"
  by (simp add: tspanNode_eq)

lemma rewriteText_tspanNode [simp]: "rewriteText (tspanNode l) = tspanNode l"
  by (simp add: tspanNode_eq)

lemma childElementCount_fixLineBreaks: "childElementCount (fixLineBreaks t) \<noteq> 0"
  by (simp add: childElementCount_def fixLineBreaks_def)

lemma rewriteText_fixLineBreaks: "map rewriteText (fixLineBreaks t) = fixLineBreaks t"
  by (simp add: fixLineBreaks_def)

lemma rewriteText_idem: "rewriteText (rewriteText nd) = rewriteText nd"
proof (induction nd)
  case (Element n ats cs)
  have IH: "map rewriteText (map rewriteText cs) = map rewriteText cs"
    using Element by simp
  show ?case
  proof (cases "n = ''text''")
    case False
    then show ?thesis using IH by simp
  next
    case named: True
    show ?thesis
    proof (cases "concat (map textContent cs) \<noteq> [] \<and> childElementCount cs = 0")
      case True
      with named show ?thesis
        by (simp add: Let_def quirkAttributes_idem childElementCount_fixLineBreaks
            rewriteText_fixLineBreaks)
    next
      case unchanged: False
      show ?thesis
      proof (cases "childElementCount cs = 0")
        case True
        then have "map rewriteText cs = cs" by (rule rewriteText_no_elements)
        with unchanged True named show ?thesis
          by (simp add: Let_def quirkAttributes_idem)
      next
        case False
        with named IH show ?thesis
          by (simp add: Let_def quirkAttributes_idem)
      qed
    qed
  qed
qed simp_all

subsection \<open>The loop of the source is that recursion\<close>

lemma fold_updateAt_child:
  "i < length xs \<Longrightarrow>
   fold (\<lambda>p. updateAt p f) (map ((#) i) ps) (Element n a xs) =
   Element n a (xs[i := fold (\<lambda>p. updateAt p f) ps (xs ! i)])"
  by (induction ps arbitrary: xs) simp_all

lemma fold_updateAt_children:
  "(\<And>c. c \<in> set cs \<Longrightarrow> fold (\<lambda>p. updateAt p f) (collectText c) c = R c) \<Longrightarrow>
   fold (\<lambda>p. updateAt p f) (collectTextFrom (length pre) cs) (Element n a (pre @ cs)) =
   Element n a (pre @ map R cs)"
proof (induction cs arbitrary: pre)
  case Nil
  then show ?case by simp
next
  case (Cons c cs)
  have c: "fold (\<lambda>p. updateAt p f) (collectText c) c = R c"
    using Cons.prems by simp
  have "fold (\<lambda>p. updateAt p f) (map ((#) (length pre)) (collectText c))
          (Element n a (pre @ c # cs)) = Element n a ((pre @ [R c]) @ cs)"
    by (simp add: fold_updateAt_child c)
  moreover have "fold (\<lambda>p. updateAt p f) (collectTextFrom (length (pre @ [R c])) cs)
          (Element n a ((pre @ [R c]) @ cs)) = Element n a ((pre @ [R c]) @ map R cs)"
    by (rule Cons.IH) (use Cons.prems in simp)
  ultimately show ?case by simp
qed

lemma collectTextFrom_no_elements:
  "childElementCount cs = 0 \<Longrightarrow> collectTextFrom i cs = []"
proof (induction cs arbitrary: i)
  case Nil
  then show ?case by simp
next
  case (Cons c cs)
  then show ?case by (cases c) (auto simp: childElementCount_def split: if_splits)
qed

lemma transformTextElements_rewriteText: "transformTextElements r = rewriteText r"
proof (induction r)
  case (Element n ats cs)
  have kids: "\<And>a. fold (\<lambda>p. updateAt p applyQuirks) (collectTextFrom 0 cs) (Element n a cs) =
     Element n a (map rewriteText cs)"
    using fold_updateAt_children[of cs applyQuirks rewriteText "[]" n] Element
    by (simp add: transformTextElements_def)
  show ?case
  proof (cases "n = ''text''")
    case False
    then show ?thesis using kids by (simp add: transformTextElements_def)
  next
    case named: True
    show ?thesis
    proof (cases "concat (map textContent cs) \<noteq> [] \<and> childElementCount cs = 0")
      case True
      with named show ?thesis
        by (simp add: transformTextElements_def Let_def collectTextFrom_no_elements)
    next
      case False
      with named kids show ?thesis
        by (auto simp add: transformTextElements_def Let_def)
    qed
  qed
qed (simp_all add: transformTextElements_def)

text \<open>A text element of the tree is rewritten where it stands.\<close>

lemma nodeAt_rewriteText:
  "nodeAt p r = Some (Element ''text'' ats cs) \<Longrightarrow>
   nodeAt p (rewriteText r) = Some (rewriteText (Element ''text'' ats cs))"
proof (induction p arbitrary: r)
  case Nil
  then show ?case by simp
next
  case (Cons i p)
  then obtain n a xs where r: "r = Element n a xs"
    by (cases r) auto
  with Cons.prems have i: "i < length xs"
    and at: "nodeAt p (xs ! i) = Some (Element ''text'' ats cs)"
    by (auto split: if_splits)
  have el: "isElement (xs ! i)"
    using at by (cases p; cases "xs ! i") auto
  then have "childElementCount xs \<noteq> 0"
    using i by (auto simp: childElementCount_def filter_empty_conv)
  then have "rewriteText r = Element n (if n = ''text'' then quirkAttributes a else a)
       (map rewriteText xs)"
    using r by (simp add: Let_def)
  then show ?case
    using i Cons.IH[OF at] by simp
qed

subsection \<open>Text normalisation\<close>

lemma setDocumentElement_same:
  "documentElement d = Some t \<Longrightarrow> setDocumentElement d t = d"
  by (induction d) (auto split: if_splits)

lemma writeThrough_same: "writeThrough t t d = d"
  by (simp add: writeThrough_def setDocumentElement_same)

text \<open>
  C4. Text normalisation is idempotent: the rewriting of the text elements (lines 96 to
  138), applied to a tree it has already rewritten, gives that tree again. No line node
  is added a second time and no attribute is set to a default a second time. The whole
  pass ends with the font conversion, which is the collaborator's: when that leaves a
  normalised tree normalised and changes nothing the second time, the whole pass run again
  returns as it did and leaves the renderer as the first run left it.
\<close>

theorem text_normalisation_idempotent:
  "transformTextElements (transformTextElements r) = transformTextElements r \<and>
   ((\<forall>m. transformTextElements m = m \<longrightarrow>
          transformTextElements (convertFonts P m) = convertFonts P m) \<and>
    (\<forall>m. convertFonts P (convertFonts P m) = convertFonts P m) \<longrightarrow>
    transformText P (snd (transformText P s)) = transformText P s)"
proof (intro conjI impI)
  show idem: "transformTextElements (transformTextElements r) = transformTextElements r" for r
    by (simp add: transformTextElements_rewriteText rewriteText_idem)
  assume fonts: "(\<forall>m. transformTextElements m = m \<longrightarrow>
          transformTextElements (convertFonts P m) = convertFonts P m) \<and>
    (\<forall>m. convertFonts P (convertFonts P m) = convertFonts P m)"
  show "transformText P (snd (transformText P s)) = transformText P s"
  proof (cases "svgTag s")
    case None
    then show ?thesis by (simp add: transformText_def)
  next
    case (Some tag)
    let ?t = "convertFonts P (transformTextElements tag)"
    have "transformTextElements ?t = ?t"
      using fonts idem[of tag] by blast
    then have again: "convertFonts P (transformTextElements ?t) = ?t"
      using fonts by simp
    show ?thesis
      using Some
      by (cases "svgDom s") (simp_all add: transformText_def Let_def again writeThrough_same)
  qed
qed

text \<open>
  C4 on the scenario of the specification, with a font conversion that changes nothing.
\<close>

theorem text_normalisation_idempotent_witness:
  "svgTag (snd (transformText stubPlatform (readyState scenarioSvg))) =
     Some normalizedScenarioSvg \<and>
   transformText stubPlatform (snd (transformText stubPlatform (readyState scenarioSvg))) =
     transformText stubPlatform (readyState scenarioSvg)"
proof -
  have "transformTextElements scenarioSvg = normalizedScenarioSvg"
    by (simp add: transformTextElements_def scenarioSvg_def normalizedScenarioSvg_def
        scenarioText_def Let_def childElementCount_def fixLineBreaks_def tspanNode_eq
        quirkAttributes_def removeAttribute_def getAttribute_def)
  then have first: "svgTag (snd (transformText stubPlatform (readyState scenarioSvg))) =
      Some normalizedScenarioSvg"
    by (simp add: transformText_def Let_def readyState_def stubPlatform_def)
  have same: "convertFonts stubPlatform m = m" for m
    by (simp add: stubPlatform_def)
  show ?thesis
    using text_normalisation_idempotent[of _ stubPlatform "readyState scenarioSvg"] first
    by (simp add: same)
qed



lemma nodeAt_renameHelvetica:
  "nodeAt q m = Some nd \<Longrightarrow> nodeAt q (renameHelvetica m) = Some (renameHelvetica nd)"
proof (induction q arbitrary: m)
  case Nil
  then show ?case by simp
next
  case (Cons i q)
  then show ?case by (cases m) (auto split: if_splits)
qed

lemma renameHelvetica_leaves_font_size:
  assumes "nodeAt q m = Some (Element n a c)"
  shows "\<exists>a' c'. nodeAt q (renameHelvetica m) = Some (Element n a' c') \<and>
           getAttribute a' ''font-size'' = getAttribute a ''font-size''"
  using nodeAt_renameHelvetica[OF assms] by (simp add: getAttribute_setAttribute)

text \<open>
  C6, as the code has it. A text element anywhere in the tree keeps, through the rewriting
  of the text elements (lines 96 to 138), the value of a \<^verbatim>\<open>font-size\<close> and of a
  \<^verbatim>\<open>font-family\<close> attribute that it has with a value other than the empty string; an
  absent attribute and one whose value is the empty string are set to \<^verbatim>\<open>14\<close> and to
  \<^verbatim>\<open>Helvetica\<close>. The normalisation ends with the font conversion (line 139), applied to
  the rewritten tree, and its result is the current root. So after the whole normalisation
  the element has, for \<^verbatim>\<open>font-size\<close> as for \<^verbatim>\<open>font-family\<close>, the value the rewriting
  left, whenever the font conversion leaves that attribute of every element as it finds
  it, the element where it stands and its name as it is.
\<close>

theorem explicit_fonts_kept:
  assumes "svgTag s = Some r"
    and "nodeAt p r = Some (Element ''text'' ats cs)"
  shows "\<exists>ats' cs'. nodeAt p (transformTextElements r) = Some (Element ''text'' ats' cs') \<and>
           getAttribute ats' ''font-size'' =
             (if truthy (getAttribute ats ''font-size'') then getAttribute ats ''font-size''
              else Some ''14'') \<and>
           getAttribute ats' ''font-family'' =
             (if truthy (getAttribute ats ''font-family'') then getAttribute ats ''font-family''
              else Some ''Helvetica'') \<and>
           fst (transformText P s) = Inr () \<and>
           svgTag (snd (transformText P s)) =
             Some (convertFonts P (transformTextElements r)) \<and>
           (\<forall>k. (\<forall>m q n a c. nodeAt q m = Some (Element n a c) \<longrightarrow>
                   (\<exists>a' c'. nodeAt q (convertFonts P m) = Some (Element n a' c') \<and>
                      getAttribute a' k = getAttribute a k)) \<longrightarrow>
                (\<exists>t ats'' cs''. svgTag (snd (transformText P s)) = Some t \<and>
                   nodeAt p t = Some (Element ''text'' ats'' cs'') \<and>
                   getAttribute ats'' k = getAttribute ats' k))"
proof -
  have "\<exists>cs'. rewriteText (Element ''text'' ats cs) =
          Element ''text'' (quirkAttributes ats) cs'"
    by (simp add: Let_def)
  then obtain cs' where
    "rewriteText (Element ''text'' ats cs) = Element ''text'' (quirkAttributes ats) cs'" ..
  then have at: "nodeAt p (transformTextElements r) =
      Some (Element ''text'' (quirkAttributes ats) cs')"
    using nodeAt_rewriteText[OF assms(2)] by (simp add: transformTextElements_rewriteText)
  have run: "fst (transformText P s) = Inr ()"
      "svgTag (snd (transformText P s)) = Some (convertFonts P (transformTextElements r))"
    using assms(1) by (simp_all add: transformText_def Let_def)
  have "\<exists>t ats'' cs''. svgTag (snd (transformText P s)) = Some t \<and>
      nodeAt p t = Some (Element ''text'' ats'' cs'') \<and>
      getAttribute ats'' k = getAttribute (quirkAttributes ats) k"
    if "\<forall>m q n a c. nodeAt q m = Some (Element n a c) \<longrightarrow>
          (\<exists>a' c'. nodeAt q (convertFonts P m) = Some (Element n a' c') \<and>
             getAttribute a' k = getAttribute a k)" for k
    using that at run(2) by blast
  then show ?thesis
    using at run
    by (simp add: quirkAttributes_font_size quirkAttributes_font_family)
qed

text \<open>
  C6 at \<^verbatim>\<open><svg><text font-size="20" font-family="Helvetica">Hi</text></svg>\<close>, on the
  platform whose font conversion rewrites the family and leaves the size: after the whole
  normalisation the size is still 20.
\<close>

theorem explicit_fonts_kept_witness:
  "\<exists>t ats'' cs''.
     svgTag (snd (transformText renamingPlatform
        (readyState (Element ''svg'' []
           [Element ''text'' [(''font-size'', ''20''), (''font-family'', ''Helvetica'')]
              [Text ''Hi'']])))) = Some t \<and>
     nodeAt [0] t = Some (Element ''text'' ats'' cs'') \<and>
     getAttribute ats'' ''font-size'' = Some ''20''"
proof -
  let ?ats = "[(''font-size'', ''20''), (''font-family'', ''Helvetica'')]"
  let ?r = "Element ''svg'' [] [Element ''text'' ?ats [Text ''Hi'']]"
  have conv: "convertFonts renamingPlatform = renameHelvetica"
    by (simp add: renamingPlatform_def)
  have leaves: "\<forall>m q n a c. nodeAt q m = Some (Element n a c) \<longrightarrow>
      (\<exists>a' c'. nodeAt q (convertFonts renamingPlatform m) = Some (Element n a' c') \<and>
         getAttribute a' ''font-size'' = getAttribute a ''font-size'')"
    unfolding conv by (intro allI impI) (rule renameHelvetica_leaves_font_size)
  have root: "svgTag (readyState ?r) = Some ?r"
    by (simp add: readyState_def)
  have here: "nodeAt [0] ?r = Some (Element ''text'' ?ats [Text ''Hi''])"
    by simp
  have size: "(if truthy (getAttribute ?ats ''font-size'') then getAttribute ?ats ''font-size''
      else Some ''14'') = Some ''20''"
    by (simp add: getAttribute_def)
  show ?thesis
    using explicit_fonts_kept[OF root here, of renamingPlatform]
  proof (elim exE conjE)
    fix ats' cs'
    assume kept: "getAttribute ats' ''font-size'' =
        (if truthy (getAttribute ?ats ''font-size'') then getAttribute ?ats ''font-size''
         else Some ''14'')"
      and whole: "\<forall>k. (\<forall>m q n a c. nodeAt q m = Some (Element n a c) \<longrightarrow>
          (\<exists>a' c'. nodeAt q (convertFonts renamingPlatform m) = Some (Element n a' c') \<and>
             getAttribute a' k = getAttribute a k)) \<longrightarrow>
        (\<exists>t ats'' cs''. svgTag (snd (transformText renamingPlatform (readyState ?r))) = Some t \<and>
           nodeAt [0] t = Some (Element ''text'' ats'' cs'') \<and>
           getAttribute ats'' k = getAttribute ats' k)"
    have "\<exists>t ats'' cs''. svgTag (snd (transformText renamingPlatform (readyState ?r))) = Some t \<and>
        nodeAt [0] t = Some (Element ''text'' ats'' cs'') \<and>
        getAttribute ats'' ''font-size'' = getAttribute ats' ''font-size''"
      by (rule whole[THEN spec, THEN mp, OF leaves])
    then show ?thesis
      unfolding kept size .
  qed
qed

text \<open>
  C6 as stated fails at
  \<^verbatim>\<open><svg><text font-size="" font-family="Helvetica">Hi</text></svg>\<close>. The size is there
  before the pass, with the empty string as its value, and the rewriting of the text
  elements sets it to \<^verbatim>\<open>14\<close>, whatever the platform. The family is there before the
  pass, and on the platform whose font conversion rewrites it the whole normalisation
  leaves another.
\<close>

theorem empty_font_size_overridden:
  "nodeAt [0] (Element ''svg'' []
       [Element ''text'' [(''font-size'', ''''), (''font-family'', ''Helvetica'')]
          [Text ''Hi'']]) =
     Some (Element ''text'' [(''font-size'', ''''), (''font-family'', ''Helvetica'')]
       [Text ''Hi'']) \<and>
   getAttribute [(''font-size'', ''''), (''font-family'', ''Helvetica'')] ''font-size'' =
     Some '''' \<and>
   nodeAt [0] (transformTextElements (Element ''svg'' []
       [Element ''text'' [(''font-size'', ''''), (''font-family'', ''Helvetica'')]
          [Text ''Hi'']])) =
     Some (Element ''text''
       [(''font-size'', ''14''), (''font-family'', ''Helvetica''),
        (''alignment-baseline'', ''text-before-edge'')]
       [Element ''tspan'' [(''x'', ''0''), (''dy'', ''1.2em'')] [Text ''Hi'']]) \<and>
   svgTag (snd (transformText renamingPlatform (readyState (Element ''svg'' []
       [Element ''text'' [(''font-size'', ''''), (''font-family'', ''Helvetica'')]
          [Text ''Hi'']])))) =
     Some (Element ''svg'' []
       [Element ''text''
          [(''font-size'', ''14''), (''font-family'', ''Sans Serif''),
           (''alignment-baseline'', ''text-before-edge'')]
          [Element ''tspan'' [(''x'', ''0''), (''dy'', ''1.2em'')] [Text ''Hi'']]])"
proof -
  let ?r = "Element ''svg'' []
       [Element ''text'' [(''font-size'', ''''), (''font-family'', ''Helvetica'')]
          [Text ''Hi'']]"
  have loop: "transformTextElements ?r =
      Element ''svg'' []
       [Element ''text''
          [(''font-size'', ''14''), (''font-family'', ''Helvetica''),
           (''alignment-baseline'', ''text-before-edge'')]
          [Element ''tspan'' [(''x'', ''0''), (''dy'', ''1.2em'')] [Text ''Hi'']]]"
    by (simp add: transformTextElements_def Let_def childElementCount_def fixLineBreaks_def
        tspanNode_eq quirkAttributes_def removeAttribute_def getAttribute_def)
  have "svgTag (snd (transformText renamingPlatform (readyState ?r))) =
      Some (renameHelvetica (transformTextElements ?r))"
    by (simp add: transformText_def Let_def readyState_def renamingPlatform_def)
  then show ?thesis
    unfolding loop by (simp add: getAttribute_def)
qed

subsection \<open>The largest stroke width\<close>

lemma fold_max_ge: "(acc::real) \<le> fold max xs acc"
proof (induction xs arbitrary: acc)
  case Nil
  then show ?case by simp
next
  case (Cons a xs)
  have "acc \<le> max a acc" by simp
  also have "\<dots> \<le> fold max xs (max a acc)" by (rule Cons.IH)
  finally show ?case by simp
qed

lemma collectStrokeWidths_own:
  "0 \<le> largest \<Longrightarrow>
   (case getAttribute ats ''stroke-width'' of
      None \<Rightarrow> (if truthy (getAttribute ats ''stroke'') then max largest 1 else largest)
    | Some v \<Rightarrow>
        if v \<noteq> []
        then max (if truthy (getAttribute ats ''stroke'') then max largest 1 else largest)
               (numberOrZero P v)
        else (if truthy (getAttribute ats ''stroke'') then max largest 1 else largest)) =
   max (strokeContribution P (Element n ats cs)) largest"
  by (auto split: option.splits)

lemma fold_collectStrokeWidths:
  assumes "\<And>c a. c \<in> set cs \<Longrightarrow> 0 \<le> a \<Longrightarrow>
             collectStrokeWidths P c a = fold max (map (strokeContribution P) (nodes c)) a"
    and "0 \<le> acc"
  shows "fold (collectStrokeWidths P) cs acc =
         fold max (map (strokeContribution P) (concat (map nodes cs))) acc"
  using assms
proof (induction cs arbitrary: acc)
  case Nil
  then show ?case by simp
next
  case (Cons c cs)
  have step: "collectStrokeWidths P c acc = fold max (map (strokeContribution P) (nodes c)) acc"
    using Cons.prems by simp
  have "0 \<le> fold max (map (strokeContribution P) (nodes c)) acc"
    using fold_max_ge[of acc] Cons.prems(2) by (rule order_trans[rotated])
  then have "fold (collectStrokeWidths P) cs (fold max (map (strokeContribution P) (nodes c)) acc) =
      fold max (map (strokeContribution P) (concat (map nodes cs)))
        (fold max (map (strokeContribution P) (nodes c)) acc)"
    using Cons.prems(1) by (intro Cons.IH) simp_all
  then show ?case
    by (simp add: step)
qed

lemma collectStrokeWidths_fold_max:
  "0 \<le> acc \<Longrightarrow>
   collectStrokeWidths P nd acc = fold max (map (strokeContribution P) (nodes nd)) acc"
proof (induction nd arbitrary: acc)
  case (Element n ats cs)
  let ?l = "max (strokeContribution P (Element n ats cs)) acc"
  have "0 \<le> ?l" using Element.prems by simp
  then have "fold (collectStrokeWidths P) cs ?l =
      fold max (map (strokeContribution P) (concat (map nodes cs))) ?l"
    using Element.IH by (intro fold_collectStrokeWidths) simp_all
  moreover have "collectStrokeWidths P (Element n ats cs) acc =
      fold (collectStrokeWidths P) cs ?l"
    using collectStrokeWidths_own[OF Element.prems, of ats P n cs]
    by (simp add: Let_def)
  ultimately show ?case by simp
next
  case (Text t)
  then show ?case by (simp add: max_absorb2)
next
  case (Comment t)
  then show ?case by (simp add: max_absorb2)
qed

lemma findLargestStrokeWidth_Max:
  "findLargestStrokeWidth P r = Max (set (0 # map (strokeContribution P) (nodes r)))"
  by (simp only: findLargestStrokeWidth_def Max.set_eq_fold
      collectStrokeWidths_fold_max[OF order_refl])

text \<open>
  C1, as the code has it. The largest stroke width is the maximum, over all nodes of the
  tree with the root, of what each adds, and never below 0. An element adds the larger of
  1, when its \<^verbatim>\<open>stroke\<close> has a value other than the empty string, and of the number its
  \<^verbatim>\<open>stroke-width\<close> denotes, when that has such a value and is a number; it adds 1 also
  when a smaller \<^verbatim>\<open>stroke-width\<close> is given beside the \<^verbatim>\<open>stroke\<close>. Every other node
  adds 0.
\<close>

theorem largest_stroke_width_is_maximum:
  "findLargestStrokeWidth P r = Max (set (0 # map (strokeContribution P) (nodes r)))"
  by (rule findLargestStrokeWidth_Max)

text \<open>
  C1 as stated fails at \<^verbatim>\<open><svg><g/><rect stroke="red" stroke-width="0.5"/></svg>\<close>: the
  rectangle has an explicit width of 0.5, which is the maximum in the specification's
  words, and the code returns 1.
\<close>

theorem stroke_beside_thin_width_counts_one:
  "findLargestStrokeWidth stubPlatform thinStrokeSvg = 1 \<and>
   specifiedStrokeWidth stubPlatform thinStrokeSvg = 1 / 2"
  by (simp add: findLargestStrokeWidth_def specifiedStrokeWidth_def thinStrokeSvg_def
      stubPlatform_def stubNumber_def numberTable_def numberOrZero_def getAttribute_def)

subsection \<open>The measurement pass and the load, case by case\<close>

lemma documentElement_isElement: "documentElement d = Some r \<Longrightarrow> isElement r"
  by (induction d) (auto split: if_splits)

lemma documentElement_setDocumentElement:
  "documentElement d = Some r \<Longrightarrow> isElement r' \<Longrightarrow>
   documentElement (setDocumentElement d r') = Some r'"
  by (induction d) (auto split: if_splits)

lemma removeChildAt_appended [simp]: "removeChildAt (length xs) (xs @ [c]) = xs"
  by (simp add: removeChildAt_def)

lemma transformMeasurements_body: "body (snd (transformMeasurements P s)) = body s"
  by (simp add: transformMeasurements_def attach_def Let_def split: option.splits)

lemma transformMeasurements_cachedImage:
  "cachedImage (snd (transformMeasurements P s)) = cachedImage s"
  by (simp add: transformMeasurements_def attach_def Let_def split: option.splits)

lemma transformMeasurements_failure:
  "fst (transformMeasurements P s) = Inl e \<Longrightarrow>
   measurements (snd (transformMeasurements P s)) = measurements s \<and> e \<noteq> InvalidDocument"
  by (auto simp add: transformMeasurements_def attach_def Let_def split: option.splits)

lemma transformMeasurements_success:
  assumes "svgDom s = Some doc" and "svgTag s = Some tag"
    and "getBBox P tag = Some bbox"
    and "documentElement (parseFromString P (toString P doc)) = Some r"
  shows "transformMeasurements P s =
     (Inr (),
      s\<lparr>body := body s,
        svgDom := Some (setDocumentElement (parseFromString P (toString P doc))
           (setMeasurements P (enlarge bbox (findLargestStrokeWidth P r / 2)) r)),
        svgTag := Some (setMeasurements P (enlarge bbox (findLargestStrokeWidth P r / 2)) r),
        measurements := enlarge bbox (findLargestStrokeWidth P r / 2)\<rparr>)"
  using assms by (simp add: transformMeasurements_def attach_def Let_def)

lemma loadString_valid:
  assumes "parseFromString P str = doc" and "documentElement doc = Some r"
    and "localName r = Some ''svg''"
  shows "loadString P str s =
     transformMeasurements P
       (s\<lparr>cachedImage := None,
          svgTag := Some (convertFonts P (transformTextElements r)),
          svgDom := Some (setDocumentElement doc (convertFonts P (transformTextElements r)))\<rparr>)"
proof -
  have "doc \<noteq> []" using assms(2) by auto
  then show ?thesis
    using assms by (simp add: loadString_def Let_def transformText_def writeThrough_def)
qed

lemma loadString_invalid:
  assumes "parseFromString P str = [] \<or>
     (\<exists>r. documentElement (parseFromString P str) = Some r \<and> localName r \<noteq> Some ''svg'')"
  shows "loadString P str s =
     (Inl InvalidDocument, s\<lparr>cachedImage := None, svgDom := Some (parseFromString P str)\<rparr>)"
  using assms by (auto simp: loadString_def Let_def)

lemma loadString_rootless:
  assumes "parseFromString P str \<noteq> []" and "documentElement (parseFromString P str) = None"
  shows "loadString P str s =
     (Inl TypeError, s\<lparr>cachedImage := None, svgDom := Some (parseFromString P str)\<rparr>)"
  using assms by (simp add: loadString_def Let_def)

lemma loadString_outcome:
  obtains
    (invalid) "parseFromString P str = [] \<or>
       (\<exists>r. documentElement (parseFromString P str) = Some r \<and> localName r \<noteq> Some ''svg'')"
      "loadString P str s =
        (Inl InvalidDocument, s\<lparr>cachedImage := None, svgDom := Some (parseFromString P str)\<rparr>)"
  | (rootless) "parseFromString P str \<noteq> []" "documentElement (parseFromString P str) = None"
      "loadString P str s =
        (Inl TypeError, s\<lparr>cachedImage := None, svgDom := Some (parseFromString P str)\<rparr>)"
  | (svg) r where "parseFromString P str \<noteq> []"
      "documentElement (parseFromString P str) = Some r" "localName r = Some ''svg''"
      "loadString P str s =
        transformMeasurements P
          (s\<lparr>cachedImage := None,
             svgTag := Some (convertFonts P (transformTextElements r)),
             svgDom := Some (setDocumentElement (parseFromString P str)
                (convertFonts P (transformTextElements r)))\<rparr>)"
proof (cases "documentElement (parseFromString P str)")
  case None
  show ?thesis
  proof (cases "parseFromString P str = []")
    case True
    then show ?thesis using invalid loadString_invalid by blast
  next
    case False
    then show ?thesis using rootless None loadString_rootless by blast
  qed
next
  case (Some r)
  then have ne: "parseFromString P str \<noteq> []" by auto
  show ?thesis
  proof (cases "localName r = Some ''svg''")
    case True
    then show ?thesis using svg[OF ne Some True] loadString_valid[OF refl Some True] by simp
  next
    case False
    with Some have "\<exists>r. documentElement (parseFromString P str) = Some r \<and>
        localName r \<noteq> Some ''svg''" by blast
    then show ?thesis using invalid loadString_invalid by blast
  qed
qed

lemma getAttribute_setMeasurements:
  "setMeasurements P m (Element n ats cs) = Element n ats' cs' \<Longrightarrow>
   cs' = cs \<and>
   getAttribute ats' ''width'' = Some (numberToString P (width m)) \<and>
   getAttribute ats' ''height'' = Some (numberToString P (height m)) \<and>
   getAttribute ats' ''viewBox'' = Some (viewBoxString P m)"
  by (auto simp: setMeasurements_def getAttribute_setAttribute)

text \<open>
  C3. When the oracle returns a box for the tree and the text saved before has a root
  when parsed again, the pass succeeds. With \<open>h\<close> half the largest stroke width of
  that root, the stored measurement is the box moved by \<open>h\<close> to the upper left and
  widened by \<open>2h\<close>; the root that is current afterwards, which is the root of the current
  document, has \<^verbatim>\<open>width\<close> and \<^verbatim>\<open>height\<close> set to the two sizes and \<^verbatim>\<open>viewBox\<close> to the
  four values \<^verbatim>\<open>x y width height\<close> with a space between them.
\<close>

theorem measurement_is_enlarged_bbox:
  assumes "svgDom s = Some doc" and "svgTag s = Some tag"
    and "getBBox P tag = Some bbox"
    and "documentElement (parseFromString P (toString P doc)) = Some r"
    and "h = findLargestStrokeWidth P r / 2"
    and "s' = snd (transformMeasurements P s)"
  shows "fst (transformMeasurements P s) = Inr () \<and>
         measurements s' =
           \<lparr>x = x bbox - h, y = y bbox - h,
            width = width bbox + 2 * h, height = height bbox + 2 * h\<rparr> \<and>
         (\<exists>n ats cs d. svgTag s' = Some (Element n ats cs) \<and>
            svgDom s' = Some d \<and> documentElement d = Some (Element n ats cs) \<and>
            getAttribute ats ''width'' = Some (numberToString P (width bbox + 2 * h)) \<and>
            getAttribute ats ''height'' = Some (numberToString P (height bbox + 2 * h)) \<and>
            getAttribute ats ''viewBox'' =
              Some (numberToString P (x bbox - h) @ '' '' @ numberToString P (y bbox - h) @
                    '' '' @ numberToString P (width bbox + 2 * h) @ '' '' @
                    numberToString P (height bbox + 2 * h)))"
proof -
  let ?m = "enlarge bbox h"
  have run: "transformMeasurements P s =
     (Inr (),
      s\<lparr>body := body s,
        svgDom := Some (setDocumentElement (parseFromString P (toString P doc))
           (setMeasurements P ?m r)),
        svgTag := Some (setMeasurements P ?m r),
        measurements := ?m\<rparr>)"
    by (rule transformMeasurements_success[OF assms(1-4), folded assms(5)])
  obtain n ats cs where r: "r = Element n ats cs"
    using documentElement_isElement[OF assms(4)] by (cases r) auto
  obtain ats' where r': "setMeasurements P ?m r = Element n ats' cs"
    by (simp add: r setMeasurements_def)
  have root: "documentElement (setDocumentElement (parseFromString P (toString P doc))
      (setMeasurements P ?m r)) = Some (Element n ats' cs)"
    using documentElement_setDocumentElement[OF assms(4), of "setMeasurements P ?m r"] r'
    by simp
  have at: "getAttribute ats' ''width'' = Some (numberToString P (width ?m)) \<and>
      getAttribute ats' ''height'' = Some (numberToString P (height ?m)) \<and>
      getAttribute ats' ''viewBox'' = Some (viewBoxString P ?m)"
    using getAttribute_setMeasurements[OF r'[unfolded r]] by simp
  have m: "?m = \<lparr>x = x bbox - h, y = y bbox - h,
      width = width bbox + 2 * h, height = height bbox + 2 * h\<rparr>"
    by (simp add: enlarge_def)
  show ?thesis
    unfolding assms(6) run using root at r'
    by (simp add: m viewBoxString_def)
qed

text \<open>
  C3 at a tree whose largest stroke width is 3, with the box \<open>(1, 2, 10, 20)\<close>.
\<close>

theorem measurement_is_enlarged_bbox_witness:
  "fst (transformMeasurements stubPlatform
      \<lparr>body = [Comment ''page''], cachedImage = None, svgDom = Some [widerSvg],
       svgTag = Some widerSvg, measurements = \<lparr>x = 0, y = 0, width = 0, height = 0\<rparr>\<rparr>) = Inr () \<and>
   measurements (snd (transformMeasurements stubPlatform
      \<lparr>body = [Comment ''page''], cachedImage = None, svgDom = Some [widerSvg],
       svgTag = Some widerSvg, measurements = \<lparr>x = 0, y = 0, width = 0, height = 0\<rparr>\<rparr>)) =
     \<lparr>x = - (1 / 2), y = 1 / 2, width = 13, height = 23\<rparr>"
proof -
  let ?s = "\<lparr>body = [Comment ''page''], cachedImage = None, svgDom = Some [widerSvg],
       svgTag = Some widerSvg, measurements = \<lparr>x = 0, y = 0, width = 0, height = 0\<rparr>\<rparr>"
  have 1: "svgDom ?s = Some [widerSvg]" and 2: "svgTag ?s = Some widerSvg" by simp_all
  have 3: "getBBox stubPlatform widerSvg = Some \<lparr>x = 1, y = 2, width = 10, height = 20\<rparr>"
    by (simp add: stubPlatform_def stubGetBBox_def widerSvg_def)
  have 4: "documentElement (parseFromString stubPlatform (toString stubPlatform [widerSvg])) =
      Some widerSvg"
    by (simp add: stubPlatform_def toString_def stubParse_def stubSerialize_def knownDocuments_def
        emptySvg_def plainSvg_def thinStrokeSvg_def narrowSvg_def widerSvg_def)
  have 5: "3 / 2 = findLargestStrokeWidth stubPlatform widerSvg / 2"
    by (simp add: findLargestStrokeWidth_def widerSvg_def stubPlatform_def stubNumber_def
        numberTable_def numberOrZero_def getAttribute_def)
  show ?thesis
    using measurement_is_enlarged_bbox[OF 1 2 3 4 5 refl] by simp
qed

text \<open>
  C8. The tree is attached to the page in a new \<^verbatim>\<open>span\<close>, the last child of the body.
  When the pass returns, whether with a result or with an error, the body is what it was
  before the pass. When the oracle throws the pass fails with that error, and the page is
  as before: only the document has changed, which has lost the root that was moved.
\<close>

theorem attachment_always_released:
  "body (attach tag s) = body s @ [Element ''span'' [] [tag]] \<and>
   body (snd (transformMeasurements P s)) = body s \<and>
   (svgDom s = Some doc \<and> svgTag s = Some tag \<and> getBBox P tag = None \<longrightarrow>
      transformMeasurements P s =
        (Inl MeasurementFailure, s\<lparr>svgDom := Some (moveOut tag doc)\<rparr>))"
proof (intro conjI impI)
  show "body (attach tag s) = body s @ [Element ''span'' [] [tag]]"
    by (simp add: attach_def)
  show "body (snd (transformMeasurements P s)) = body s"
    by (rule transformMeasurements_body)
  assume "svgDom s = Some doc \<and> svgTag s = Some tag \<and> getBBox P tag = None"
  then show "transformMeasurements P s =
      (Inl MeasurementFailure, s\<lparr>svgDom := Some (moveOut tag doc)\<rparr>)"
    by (simp add: transformMeasurements_def attach_def Let_def)
qed

text \<open>
  C8 at a tree without content, for which the oracle throws: the comment that was on the
  page is all there is on it afterwards.
\<close>

theorem attachment_always_released_witness:
  "transformMeasurements stubPlatform
      \<lparr>body = [Comment ''page''], cachedImage = None, svgDom = Some [emptySvg],
       svgTag = Some emptySvg, measurements = \<lparr>x = 0, y = 0, width = 0, height = 0\<rparr>\<rparr> =
   (Inl MeasurementFailure,
      \<lparr>body = [Comment ''page''], cachedImage = None, svgDom = Some [],
       svgTag = Some emptySvg, measurements = \<lparr>x = 0, y = 0, width = 0, height = 0\<rparr>\<rparr>)"
  using attachment_always_released[of emptySvg
      "\<lparr>body = [Comment ''page''], cachedImage = None, svgDom = Some [emptySvg],
       svgTag = Some emptySvg, measurements = \<lparr>x = 0, y = 0, width = 0, height = 0\<rparr>\<rparr>"
      stubPlatform "[emptySvg]"]
  by (simp add: stubPlatform_def stubGetBBox_def emptySvg_def moveOut_def)

lemma loadString_cachedImage: "cachedImage (snd (loadString P str s)) = None"
  by (cases rule: loadString_outcome[of P str s])
     (simp_all add: transformMeasurements_cachedImage)

lemma transformMeasurements_not_InvalidDocument:
  "fst (transformMeasurements P s) \<noteq> Inl InvalidDocument"
  using transformMeasurements_failure[of P s InvalidDocument] by blast

lemma loadString_InvalidDocument:
  "fst (loadString P str s) = Inl InvalidDocument \<longleftrightarrow>
     length (parseFromString P str) < 1 \<or>
     (\<exists>r. documentElement (parseFromString P str) = Some r \<and> localName r \<noteq> Some ''svg'')"
proof (cases rule: loadString_outcome[of P str s])
  case invalid
  then show ?thesis by auto
next
  case rootless
  then show ?thesis by simp
next
  case (svg r)
  then show ?thesis using transformMeasurements_not_InvalidDocument by simp
qed

lemma stubParse_notsvg: "parseFromString stubPlatform ''<notsvg/>'' = [Element ''notsvg'' [] []]"
  by (simp add: stubPlatform_def stubParse_def stubSerialize_def knownDocuments_def)

lemma stubParse_garbage:
  "parseFromString stubPlatform ''not xml at all <<<'' =
     [Element ''parsererror'' [] [Text ''not xml at all <<<'']]"
  by (simp add: stubPlatform_def stubParse_def stubSerialize_def knownDocuments_def
      emptySvg_def plainSvg_def thinStrokeSvg_def narrowSvg_def widerSvg_def scenarioSvg_def
      normalizedScenarioSvg_def scenarioText_def)

lemma stubParse_emptySvg: "parseFromString stubPlatform ''<svg/>'' = [emptySvg]"
  by (simp add: stubPlatform_def stubParse_def stubSerialize_def knownDocuments_def emptySvg_def)

lemma stubParse_narrowSvg:
  "parseFromString stubPlatform (stubSerialize [narrowSvg]) = [narrowSvg]"
  by (simp add: stubPlatform_def stubParse_def stubSerialize_def knownDocuments_def
      emptySvg_def plainSvg_def thinStrokeSvg_def narrowSvg_def)

lemma transformTextElements_narrowSvg: "transformTextElements narrowSvg = narrowSvg"
  by (simp add: transformTextElements_def narrowSvg_def)

lemma loadString_narrowSvg:
  "loadString stubPlatform (stubSerialize [narrowSvg]) (constructor []) = (Inr (), loadedState)"
proof -
  let ?box = "\<lparr>x = 1, y = 2, width = 10, height = 20\<rparr>"
  let ?s = "(constructor [])\<lparr>cachedImage := None, svgTag := Some narrowSvg,
      svgDom := Some [narrowSvg]\<rparr>"
  have root: "documentElement [narrowSvg] = Some narrowSvg" "localName narrowSvg = Some ''svg''"
    by (simp_all add: narrowSvg_def)
  have conv: "convertFonts stubPlatform (transformTextElements narrowSvg) = narrowSvg"
    by (simp add: transformTextElements_narrowSvg stubPlatform_def)
  have reparsed: "parseFromString stubPlatform (toString stubPlatform [narrowSvg]) =
      [narrowSvg]"
    using stubParse_narrowSvg by (simp add: toString_def stubPlatform_def)
  have box: "getBBox stubPlatform narrowSvg = Some ?box"
    by (simp add: stubPlatform_def stubGetBBox_def narrowSvg_def)
  have half: "findLargestStrokeWidth stubPlatform narrowSvg / 2 = 1 / 4"
    by (simp add: findLargestStrokeWidth_def narrowSvg_def stubPlatform_def stubNumber_def
        numberTable_def numberOrZero_def getAttribute_def)
  have enlarged: "enlarge ?box (findLargestStrokeWidth stubPlatform narrowSvg / 2) =
      \<lparr>x = 3 / 4, y = 7 / 4, width = 21 / 2, height = 41 / 2\<rparr>"
    by (simp add: half enlarge_def)
  have written: "setMeasurements stubPlatform
      \<lparr>x = 3 / 4, y = 7 / 4, width = 21 / 2, height = 41 / 2\<rparr> narrowSvg = measuredNarrowSvg"
    by (simp add: setMeasurements_def narrowSvg_def measuredNarrowSvg_def viewBoxString_def
        stubPlatform_def stubNumberToString_def numberTable_def)
  have el: "isElement narrowSvg"
    by (simp add: narrowSvg_def)
  have same: "setDocumentElement [narrowSvg] narrowSvg = [narrowSvg]"
    by (simp add: narrowSvg_def)
  have "loadString stubPlatform (stubSerialize [narrowSvg]) (constructor []) =
      transformMeasurements stubPlatform ?s"
    using loadString_valid[OF stubParse_narrowSvg root, of "constructor []"] same
    by (simp add: conv)
  also have "\<dots> = (Inr (), loadedState)"
    using transformMeasurements_success[of ?s "[narrowSvg]" narrowSvg stubPlatform ?box narrowSvg]
    by (simp add: box reparsed el enlarged written constructor_def loadedState_def)
  finally show ?thesis .
qed

text \<open>
  C7. The load fails with \<open>InvalidDocument\<close> exactly when the parsed document has no
  node or its root element is not named \<^verbatim>\<open>svg\<close>. So it does for \<^verbatim>\<open><notsvg/>\<close>, parsed
  to a document with that root, and for \<^verbatim>\<open>not xml at all <<<\<close>, for which the parser
  answers with a \<^verbatim>\<open>parsererror\<close> document.
\<close>

theorem invalid_document_rejected:
  "(fst (loadString P str s) = Inl InvalidDocument \<longleftrightarrow>
      length (parseFromString P str) < 1 \<or>
      (\<exists>r. documentElement (parseFromString P str) = Some r \<and> localName r \<noteq> Some ''svg'')) \<and>
   (parseFromString P ''<notsvg/>'' = [Element ''notsvg'' [] []] \<longrightarrow>
      fst (loadString P ''<notsvg/>'' s) = Inl InvalidDocument) \<and>
   (documentElement (parseFromString P ''not xml at all <<<'') =
        Some (Element ''parsererror'' ats cs) \<longrightarrow>
      fst (loadString P ''not xml at all <<<'' s) = Inl InvalidDocument)"
proof (intro conjI impI)
  show "fst (loadString P str s) = Inl InvalidDocument \<longleftrightarrow>
      length (parseFromString P str) < 1 \<or>
      (\<exists>r. documentElement (parseFromString P str) = Some r \<and> localName r \<noteq> Some ''svg'')"
    by (rule loadString_InvalidDocument)
next
  assume "parseFromString P ''<notsvg/>'' = [Element ''notsvg'' [] []]"
  then show "fst (loadString P ''<notsvg/>'' s) = Inl InvalidDocument"
    by (simp add: loadString_InvalidDocument)
next
  assume "documentElement (parseFromString P ''not xml at all <<<'') =
      Some (Element ''parsererror'' ats cs)"
  then show "fst (loadString P ''not xml at all <<<'' s) = Inl InvalidDocument"
    by (simp add: loadString_InvalidDocument)
qed

text \<open>
  C7 on the platform above, which parses the two strings so.
\<close>

theorem invalid_document_rejected_witness:
  "fst (loadString stubPlatform ''<notsvg/>'' (constructor [])) = Inl InvalidDocument \<and>
   fst (loadString stubPlatform ''not xml at all <<<'' (constructor [])) = Inl InvalidDocument"
  using invalid_document_rejected[of stubPlatform "''<notsvg/>''" "constructor []"
      "[]" "[Text ''not xml at all <<<'']"]
  by (simp add: stubParse_notsvg stubParse_garbage)

text \<open>
  C2, as the code has it. A load that fails, at any stage, leaves the measurement and
  the page as they were. It does not leave the document as it was: \<^verbatim>\<open>_svgDom\<close> is
  assigned before the document is validated. After a failed validation \<^verbatim>\<open>_svgDom\<close> is
  the document just parsed and \<^verbatim>\<open>_svgTag\<close> is still the former root.
\<close>

theorem failed_load_keeps_measurement:
  assumes "fst (loadString P str s) = Inl e"
  shows "measurements (snd (loadString P str s)) = measurements s \<and>
         body (snd (loadString P str s)) = body s \<and>
         (e = InvalidDocument \<longrightarrow>
            svgTag (snd (loadString P str s)) = svgTag s \<and>
            svgDom (snd (loadString P str s)) = Some (parseFromString P str))"
proof (cases rule: loadString_outcome[of P str s])
  case invalid
  then show ?thesis by simp
next
  case rootless
  then show ?thesis using assms by simp
next
  case (svg r)
  then show ?thesis
    using assms transformMeasurements_failure[of P _ e] transformMeasurements_body[of P]
    by simp
qed

text \<open>
  C2 at \<^verbatim>\<open><notsvg/>\<close>, loaded after a document that was measured.
\<close>

theorem failed_load_keeps_measurement_witness:
  "fst (loadString stubPlatform ''<notsvg/>'' loadedState) = Inl InvalidDocument \<and>
   measurements (snd (loadString stubPlatform ''<notsvg/>'' loadedState)) =
     \<lparr>x = 3 / 4, y = 7 / 4, width = 21 / 2, height = 41 / 2\<rparr> \<and>
   svgTag (snd (loadString stubPlatform ''<notsvg/>'' loadedState)) = Some measuredNarrowSvg"
proof -
  have failing: "fst (loadString stubPlatform ''<notsvg/>'' loadedState) = Inl InvalidDocument"
    by (simp add: loadString_InvalidDocument stubParse_notsvg)
  show ?thesis
    using failed_load_keeps_measurement[OF failing] failing
    by (simp add: loadedState_def)
qed

text \<open>
  C2 as stated fails at \<^verbatim>\<open><svg/>\<close>, loaded after a document that was measured, when
  the oracle throws: the load fails, and the document is no longer the former one but what
  is left of the new one, and the root is the new root.
\<close>

theorem failed_measurement_leaves_new_document:
  "fst (loadString stubPlatform ''<svg/>'' loadedState) = Inl MeasurementFailure \<and>
   svgDom loadedState = Some [measuredNarrowSvg] \<and>
   svgTag loadedState = Some measuredNarrowSvg \<and>
   svgDom (snd (loadString stubPlatform ''<svg/>'' loadedState)) = Some [] \<and>
   svgTag (snd (loadString stubPlatform ''<svg/>'' loadedState)) = Some emptySvg \<and>
   measuredNarrowSvg \<noteq> emptySvg"
proof -
  have root: "documentElement [emptySvg] = Some emptySvg" "localName emptySvg = Some ''svg''"
    by (simp_all add: emptySvg_def)
  have conv: "convertFonts stubPlatform (transformTextElements emptySvg) = emptySvg"
    by (simp add: transformTextElements_def stubPlatform_def emptySvg_def)
  have "loadString stubPlatform ''<svg/>'' loadedState =
      transformMeasurements stubPlatform
        (loadedState\<lparr>cachedImage := None, svgTag := Some emptySvg, svgDom := Some [emptySvg]\<rparr>)"
    using loadString_valid[OF stubParse_emptySvg root, of loadedState] conv
    by (simp add: emptySvg_def)
  then show ?thesis
    by (simp add: transformMeasurements_def attach_def moveOut_def Let_def stubPlatform_def
        stubGetBBox_def emptySvg_def loadedState_def measuredNarrowSvg_def)
qed

text \<open>
  C10, as the code has it. After a load, failed or not, no image is cached. After a
  failed validation \<^verbatim>\<open>_svgTag\<close> is still the former root, and \<^verbatim>\<open>_svgDom\<close> is the
  document just parsed.
\<close>

theorem load_invalidates_cached_image:
  "cachedImage (snd (loadString P str s)) = None \<and>
   (fst (loadString P str s) = Inl InvalidDocument \<longrightarrow>
      svgTag (snd (loadString P str s)) = svgTag s \<and>
      svgDom (snd (loadString P str s)) = Some (parseFromString P str))"
proof (intro conjI impI)
  show "cachedImage (snd (loadString P str s)) = None"
    by (rule loadString_cachedImage)
next
  assume failed: "fst (loadString P str s) = Inl InvalidDocument"
  then have *: "loadString P str s =
      (Inl InvalidDocument, s\<lparr>cachedImage := None, svgDom := Some (parseFromString P str)\<rparr>)"
    using loadString_invalid[of P str s] by (simp add: loadString_InvalidDocument)
  show "svgTag (snd (loadString P str s)) = svgTag s" by (simp add: *)
  show "svgDom (snd (loadString P str s)) = Some (parseFromString P str)" by (simp add: *)
qed

text \<open>
  C10 at \<^verbatim>\<open><notsvg/>\<close>, loaded when an image is cached.
\<close>

theorem load_invalidates_cached_image_witness:
  "cachedImage drawnState = Some ''data:image/svg+xml;utf8,...'' \<and>
   cachedImage (snd (loadString stubPlatform ''<notsvg/>'' drawnState)) = None \<and>
   svgTag (snd (loadString stubPlatform ''<notsvg/>'' drawnState)) = Some measuredNarrowSvg"
proof -
  have failing: "fst (loadString stubPlatform ''<notsvg/>'' drawnState) = Inl InvalidDocument"
    by (simp add: loadString_InvalidDocument stubParse_notsvg)
  show ?thesis
    using load_invalidates_cached_image[of stubPlatform "''<notsvg/>''" drawnState] failing
    by (simp add: drawnState_def loadedState_def)
qed

text \<open>
  C10 as stated fails at \<^verbatim>\<open><notsvg/>\<close>: the load fails, no image is cached, and the
  former document has been replaced by the one that was refused.
\<close>

theorem failed_load_replaces_document:
  "fst (loadString stubPlatform ''<notsvg/>'' drawnState) = Inl InvalidDocument \<and>
   cachedImage (snd (loadString stubPlatform ''<notsvg/>'' drawnState)) = None \<and>
   svgDom drawnState = Some [measuredNarrowSvg] \<and>
   svgDom (snd (loadString stubPlatform ''<notsvg/>'' drawnState)) = Some [Element ''notsvg'' [] []]"
proof -
  have "loadString stubPlatform ''<notsvg/>'' drawnState =
      (Inl InvalidDocument,
       drawnState\<lparr>cachedImage := None, svgDom := Some [Element ''notsvg'' [] []]\<rparr>)"
    using loadString_invalid[of stubPlatform "''<notsvg/>''" drawnState]
    by (simp add: stubParse_notsvg)
  then show ?thesis
    by (simp add: drawnState_def loadedState_def)
qed

subsection \<open>A wider stroke on one more element\<close>

lemma contributions_Element:
  "strokeContribution P ` set (nodes (Element n ats cs)) =
     insert (strokeContribution P (Element n ats []))
       (\<Union>c\<in>set cs. strokeContribution P ` set (nodes c))"
  by auto

lemma contributions_insertChildAt:
  "insertChildAt p k e D = Some D' \<Longrightarrow>
   strokeContribution P ` set (nodes D') =
     strokeContribution P ` set (nodes e) \<union> strokeContribution P ` set (nodes D)"
proof (induction p arbitrary: D D')
  case Nil
  then obtain n ats cs where D: "D = Element n ats cs"
    and D': "D' = Element n ats (take k cs @ e # drop k cs)"
    by (cases D) auto
  have "set (take k cs @ drop k cs) = set cs" by simp
  then have "set (take k cs @ e # drop k cs) = insert e (set cs)"
    by (simp only: set_append list.set) auto
  then show ?case
    unfolding D D' contributions_Element by auto
next
  case (Cons i p)
  then obtain n ats cs c' where D: "D = Element n ats cs" and i: "i < length cs"
    and c': "insertChildAt p k e (cs ! i) = Some c'"
    and D': "D' = Element n ats (cs[i := c'])"
    by (cases D) (auto split: if_splits option.splits)
  have IH: "strokeContribution P ` set (nodes c') =
     strokeContribution P ` set (nodes e) \<union> strokeContribution P ` set (nodes (cs ! i))"
    by (rule Cons.IH[OF c'])
  have old: "set cs = insert (cs ! i) (set (take i cs) \<union> set (drop (Suc i) cs))"
    using id_take_nth_drop[OF i] by (metis Un_insert_right list.simps(15) set_append)
  have new: "set (cs[i := c']) = insert c' (set (take i cs) \<union> set (drop (Suc i) cs))"
    using upd_conv_take_nth_drop[OF i, of c'] by (metis Un_insert_right list.simps(15) set_append)
  show ?case
    unfolding D D' contributions_Element new using IH old by auto
qed

lemma findLargestStrokeWidth_insertChildAt:
  assumes "insertChildAt p k e D = Some D'"
  shows "findLargestStrokeWidth P D' =
     max (findLargestStrokeWidth P e) (findLargestStrokeWidth P D)"
proof -
  have "set (0 # map (strokeContribution P) (nodes D')) =
      set (0 # map (strokeContribution P) (nodes e)) \<union>
      set (0 # map (strokeContribution P) (nodes D))"
    using contributions_insertChildAt[OF assms, of P] by auto
  moreover have "Max (set (0 # map (strokeContribution P) (nodes e)) \<union>
        set (0 # map (strokeContribution P) (nodes D))) =
      max (Max (set (0 # map (strokeContribution P) (nodes e))))
          (Max (set (0 # map (strokeContribution P) (nodes D))))"
    by (rule Max_Un) simp_all
  ultimately have "Max (set (0 # map (strokeContribution P) (nodes D'))) =
      max (Max (set (0 # map (strokeContribution P) (nodes e))))
          (Max (set (0 # map (strokeContribution P) (nodes D))))"
    by (simp only:)
  then show ?thesis
    by (simp only: findLargestStrokeWidth_Max)
qed

lemma contribution_le_findLargestStrokeWidth:
  "w \<in> strokeContribution P ` set (nodes c) \<Longrightarrow> w \<le> findLargestStrokeWidth P c"
  by (simp only: findLargestStrokeWidth_Max) (rule Max_ge, simp_all)

text \<open>
  The largest stroke width of an element that adds \<open>N\<close> itself, \<open>N\<close> not negative,
  and whose children bring nothing larger.
\<close>

lemma findLargestStrokeWidth_own:
  assumes "strokeContribution P (Element name eats ecs) = N" and "0 \<le> N"
    and "\<forall>c\<in>set ecs. findLargestStrokeWidth P c \<le> N"
  shows "findLargestStrokeWidth P (Element name eats ecs) = N"
proof -
  let ?A = "set (0 # map (strokeContribution P) (nodes (Element name eats ecs)))"
  have "Max ?A = N"
  proof (rule Max_eqI)
    show "finite ?A" by simp
    show "N \<in> ?A" using assms(1) by simp
    fix w
    assume "w \<in> ?A"
    then consider "w = 0" | "w = strokeContribution P (Element name eats ecs)"
      | c where "c \<in> set ecs" "w \<in> strokeContribution P ` set (nodes c)"
      by auto
    then show "w \<le> N"
    proof cases
      case 1
      then show ?thesis using assms(2) by simp
    next
      case 2
      then show ?thesis using assms(1) by simp
    next
      case 3
      then have "w \<le> findLargestStrokeWidth P c"
        by (intro contribution_le_findLargestStrokeWidth)
      then show ?thesis using assms(3) 3(1) by force
    qed
  qed
  then show ?thesis
    by (simp only: findLargestStrokeWidth_Max)
qed

text \<open>
  C9, as the code has it. Let \<open>D'\<close> be \<open>D\<close> with one more element put anywhere in the
  tree, whose \<^verbatim>\<open>stroke-width\<close> denotes a number \<open>N\<close> above the largest stroke width of
  \<open>D\<close>, which has no \<^verbatim>\<open>stroke\<close> unless \<open>N\<close> is at least 1, and whose children, if
  it has any, bring no stroke width above \<open>N\<close> (text and comments bring none). Then
  \<open>N\<close> is the largest stroke width of \<open>D'\<close>, and of two measurement passes for which
  the oracle returns the same box, the one on \<open>D\<close> stores the box enlarged by
  \<open>oldHalf\<close>, half the largest stroke width of \<open>D\<close>, and the one on \<open>D'\<close> stores the
  box enlarged by \<open>N / 2\<close>: the sums and differences of lines 217 to 221, with the one
  half stroke width in the place of the other. Nothing is said of the difference of two
  stored sizes, which is a matter of how the additions round.
\<close>

theorem wider_stroke_widens_measurement:
  assumes "insertChildAt p k (Element name eats ecs) D = Some D'"
    and "getAttribute eats ''stroke-width'' = Some v" and "v \<noteq> []" and "Number P v = Some N"
    and "findLargestStrokeWidth P D < N"
    and "\<not> truthy (getAttribute eats ''stroke'') \<or> 1 \<le> N"
    and "\<forall>c\<in>set ecs. findLargestStrokeWidth P c \<le> N"
    and "svgDom s = Some doc" and "svgTag s = Some tag"
    and "getBBox P tag = Some bbox"
    and "documentElement (parseFromString P (toString P doc)) = Some D"
    and "svgDom s' = Some doc'" and "svgTag s' = Some tag'"
    and "getBBox P tag' = Some bbox"
    and "documentElement (parseFromString P (toString P doc')) = Some D'"
    and "oldHalf = findLargestStrokeWidth P D / 2"
  shows "findLargestStrokeWidth P D' = N \<and>
         measurements (snd (transformMeasurements P s)) = enlarge bbox oldHalf \<and>
         measurements (snd (transformMeasurements P s')) = enlarge bbox (N / 2) \<and>
         width (measurements (snd (transformMeasurements P s'))) = width bbox + N / 2 * 2 \<and>
         height (measurements (snd (transformMeasurements P s'))) = height bbox + N / 2 * 2 \<and>
         width (measurements (snd (transformMeasurements P s))) = width bbox + oldHalf * 2 \<and>
         height (measurements (snd (transformMeasurements P s))) = height bbox + oldHalf * 2"
proof -
  have old: "0 \<le> findLargestStrokeWidth P D"
    by (simp only: findLargestStrokeWidth_Max) (simp del: strokeContribution.simps)
  then have "strokeContribution P (Element name eats ecs) = N"
    using assms(2-6) by (auto simp: numberOrZero_def)
  then have "findLargestStrokeWidth P (Element name eats ecs) = N"
    using old assms(5,7) by (intro findLargestStrokeWidth_own) simp_all
  then have new: "findLargestStrokeWidth P D' = N"
    using findLargestStrokeWidth_insertChildAt[OF assms(1), of P] assms(5) by simp
  have a: "measurements (snd (transformMeasurements P s)) = enlarge bbox oldHalf"
    by (simp add: transformMeasurements_success[OF assms(8-11)] assms(16))
  have b: "measurements (snd (transformMeasurements P s')) = enlarge bbox (N / 2)"
    by (simp add: transformMeasurements_success[OF assms(12-15)] new)
  show ?thesis
    unfolding a b by (simp add: new enlarge_def)
qed

lemma measurements_readyState:
  assumes "isElement r" 
    and "parseFromString P (toString P [r]) = [r]" and "getBBox P r = Some bbox"
  shows "measurements (snd (transformMeasurements P (readyState r))) =
     enlarge bbox (findLargestStrokeWidth P r / 2)"
proof -
  have "documentElement (parseFromString P (toString P [r])) = Some r"
    using assms(1,2) by simp
  then show ?thesis
    using transformMeasurements_success[of "readyState r" "[r]" r P bbox r] assms(3)
    by (simp add: readyState_def)
qed

lemma stub_roundtrip:
  "parseFromString stubPlatform (toString stubPlatform [plainSvg]) = [plainSvg]"
  "parseFromString stubPlatform (toString stubPlatform [thinStrokeSvg]) = [thinStrokeSvg]"
  "parseFromString stubPlatform (toString stubPlatform [narrowSvg]) = [narrowSvg]"
  "parseFromString stubPlatform (toString stubPlatform [widerSvg]) = [widerSvg]"
  by (simp_all add: stubPlatform_def toString_def stubParse_def stubSerialize_def
      knownDocuments_def emptySvg_def plainSvg_def thinStrokeSvg_def narrowSvg_def widerSvg_def)

lemma stub_box:
  "getBBox stubPlatform plainSvg = Some \<lparr>x = 1, y = 2, width = 10, height = 20\<rparr>"
  "getBBox stubPlatform thinStrokeSvg = Some \<lparr>x = 1, y = 2, width = 10, height = 20\<rparr>"
  "getBBox stubPlatform narrowSvg = Some \<lparr>x = 1, y = 2, width = 10, height = 20\<rparr>"
  "getBBox stubPlatform widerSvg = Some \<lparr>x = 1, y = 2, width = 10, height = 20\<rparr>"
  by (simp_all add: stubPlatform_def stubGetBBox_def plainSvg_def thinStrokeSvg_def
      narrowSvg_def widerSvg_def)

lemma stub_widths:
  "findLargestStrokeWidth stubPlatform plainSvg = 0"
  "findLargestStrokeWidth stubPlatform thinStrokeSvg = 1"
  "findLargestStrokeWidth stubPlatform narrowSvg = 1 / 2"
  "findLargestStrokeWidth stubPlatform widerSvg = 3"
  by (simp_all add: findLargestStrokeWidth_def plainSvg_def thinStrokeSvg_def narrowSvg_def
      widerSvg_def stubPlatform_def stubNumber_def numberTable_def numberOrZero_def
      getAttribute_def)

lemma stub_elements:
  "isElement plainSvg" "isElement thinStrokeSvg" "isElement narrowSvg" "isElement widerSvg"
  by (simp_all add: plainSvg_def thinStrokeSvg_def narrowSvg_def widerSvg_def)

lemma readyState_fields: "svgDom (readyState r) = Some [r]" "svgTag (readyState r) = Some r"
  by (simp_all add: readyState_def)

text \<open>
  C9 at a tree with stroke width 0.5 and a circle with stroke width 3 added to it: the
  stored box goes from \<open>(0.75, 1.75, 10.5, 20.5)\<close> to \<open>(-0.5, 0.5, 13, 23)\<close>.
\<close>

theorem wider_stroke_widens_measurement_witness:
  "findLargestStrokeWidth stubPlatform widerSvg = 3 \<and>
   measurements (snd (transformMeasurements stubPlatform (readyState narrowSvg))) =
     \<lparr>x = 3 / 4, y = 7 / 4, width = 21 / 2, height = 41 / 2\<rparr> \<and>
   measurements (snd (transformMeasurements stubPlatform (readyState widerSvg))) =
     \<lparr>x = - (1 / 2), y = 1 / 2, width = 13, height = 23\<rparr>"
proof -
  have ins: "insertChildAt [] 1 (Element ''circle'' [(''stroke-width'', ''3'')] []) narrowSvg =
      Some widerSvg"
    by (simp add: narrowSvg_def widerSvg_def)
  have at: "getAttribute [(''stroke-width'', ''3'')] ''stroke-width'' = Some ''3''"
    and ne: "''3'' \<noteq> []"
    and num: "Number stubPlatform ''3'' = Some 3"
    and nostroke: "\<not> truthy (getAttribute [(''stroke-width'', ''3'')] ''stroke'') \<or> 1 \<le> (3::real)"
    by (simp_all add: getAttribute_def stubPlatform_def stubNumber_def numberTable_def)
  have less: "findLargestStrokeWidth stubPlatform narrowSvg < 3"
    by (simp add: stub_widths)
  have kids: "\<forall>c\<in>set []. findLargestStrokeWidth stubPlatform c \<le> 3"
    by simp
  have roots: "documentElement (parseFromString stubPlatform
        (toString stubPlatform [narrowSvg])) = Some narrowSvg"
      "documentElement (parseFromString stubPlatform
        (toString stubPlatform [widerSvg])) = Some widerSvg"
    by (simp_all add: stub_roundtrip stub_elements)
  have half: "1 / 4 = findLargestStrokeWidth stubPlatform narrowSvg / 2"
    by (simp add: stub_widths)
  show ?thesis
    using wider_stroke_widens_measurement[OF ins at ne num less nostroke kids
        readyState_fields stub_box(3) roots(1) readyState_fields stub_box(4) roots(2) half]
    by (simp add: enlarge_def)
qed

text \<open>
  C9 as stated fails when \<^verbatim>\<open><rect stroke="red" stroke-width="0.5"/>\<close> is added to a tree
  without strokes: 0.5 exceeds the maximum 0, the width should grow from 10 by 0.5, and it
  grows to 11, because the \<^verbatim>\<open>stroke\<close> beside the width counts 1. Every number here is
  a double, and so is every sum: no rounding is involved.
\<close>

theorem thin_stroke_widens_by_one:
  "insertChildAt [] 1 (Element ''rect'' [(''stroke'', ''red''), (''stroke-width'', ''0.5'')] [])
      plainSvg = Some thinStrokeSvg \<and>
   Number stubPlatform ''0.5'' = Some (1 / 2) \<and>
   findLargestStrokeWidth stubPlatform plainSvg = 0 \<and>
   width (measurements (snd (transformMeasurements stubPlatform (readyState plainSvg)))) = 10 \<and>
   width (measurements (snd (transformMeasurements stubPlatform (readyState thinStrokeSvg)))) = 11 \<and>
   10 + 2 * ((1 / 2) / 2 - 0 / 2) = (21 / 2 :: real)"
proof -
  have "insertChildAt [] 1
      (Element ''rect'' [(''stroke'', ''red''), (''stroke-width'', ''0.5'')] []) plainSvg =
      Some thinStrokeSvg"
    by (simp add: plainSvg_def thinStrokeSvg_def)
  moreover have "Number stubPlatform ''0.5'' = Some (1 / 2)"
    by (simp add: stubPlatform_def stubNumber_def numberTable_def)
  moreover have "width (measurements (snd (transformMeasurements stubPlatform
      (readyState plainSvg)))) = 10"
    by (simp add: measurements_readyState[OF stub_elements(1) stub_roundtrip(1) stub_box(1)]
        stub_widths enlarge_def)
  moreover have "width (measurements (snd (transformMeasurements stubPlatform
      (readyState thinStrokeSvg)))) = 11"
    by (simp add: measurements_readyState[OF stub_elements(2) stub_roundtrip(2) stub_box(2)]
        stub_widths enlarge_def)
  ultimately show ?thesis
    by (simp add: stub_widths)
qed

subsection \<open>The scenario of the specification, from the string to the measurement\<close>

lemma transformTextElements_scenarioSvg:
  "transformTextElements scenarioSvg = normalizedScenarioSvg"
  by (simp add: transformTextElements_def scenarioSvg_def normalizedScenarioSvg_def
      scenarioText_def Let_def childElementCount_def fixLineBreaks_def tspanNode_eq
      quirkAttributes_def removeAttribute_def getAttribute_def)

lemma stubParse_scenarioSvg:
  "parseFromString stubPlatform (stubSerialize [scenarioSvg]) = [scenarioSvg]"
  by (simp add: stubPlatform_def stubParse_def stubSerialize_def knownDocuments_def
      emptySvg_def plainSvg_def thinStrokeSvg_def narrowSvg_def widerSvg_def scenarioSvg_def)

lemma stubParse_normalizedScenarioSvg:
  "parseFromString stubPlatform (stubSerialize [normalizedScenarioSvg]) =
     [normalizedScenarioSvg]"
  by (simp add: stubPlatform_def stubParse_def stubSerialize_def knownDocuments_def
      emptySvg_def plainSvg_def thinStrokeSvg_def narrowSvg_def widerSvg_def scenarioSvg_def
      normalizedScenarioSvg_def scenarioText_def)

lemma loadString_scenarioSvg:
  "loadString stubPlatform (stubSerialize [scenarioSvg]) (constructor []) =
     (Inr (),
      \<lparr>body = [], cachedImage = None, svgDom = Some [measuredScenarioSvg],
       svgTag = Some measuredScenarioSvg,
       measurements = \<lparr>x = 1 / 2, y = 3 / 2, width = 11, height = 21\<rparr>\<rparr>)"
proof -
  let ?box = "\<lparr>x = 1, y = 2, width = 10, height = 20\<rparr>"
  let ?s = "(constructor [])\<lparr>cachedImage := None, svgTag := Some normalizedScenarioSvg,
      svgDom := Some [normalizedScenarioSvg]\<rparr>"
  have root: "documentElement [scenarioSvg] = Some scenarioSvg"
      "localName scenarioSvg = Some ''svg''"
    by (simp_all add: scenarioSvg_def)
  have conv: "convertFonts stubPlatform (transformTextElements scenarioSvg) =
      normalizedScenarioSvg"
    by (simp add: transformTextElements_scenarioSvg stubPlatform_def)
  have el: "isElement scenarioSvg" "isElement normalizedScenarioSvg"
    by (simp_all add: scenarioSvg_def normalizedScenarioSvg_def)
  have reparsed: "parseFromString stubPlatform (toString stubPlatform [normalizedScenarioSvg]) =
      [normalizedScenarioSvg]"
    using stubParse_normalizedScenarioSvg by (simp add: toString_def stubPlatform_def)
  have box: "getBBox stubPlatform normalizedScenarioSvg = Some ?box"
    by (simp add: stubPlatform_def stubGetBBox_def normalizedScenarioSvg_def)
  have half: "findLargestStrokeWidth stubPlatform normalizedScenarioSvg / 2 = 1 / 2"
    by (simp add: findLargestStrokeWidth_def normalizedScenarioSvg_def scenarioText_def
        stubPlatform_def getAttribute_def)
  have enlarged: "enlarge ?box (findLargestStrokeWidth stubPlatform normalizedScenarioSvg / 2) =
      \<lparr>x = 1 / 2, y = 3 / 2, width = 11, height = 21\<rparr>"
    by (simp add: half enlarge_def)
  have written: "setMeasurements stubPlatform \<lparr>x = 1 / 2, y = 3 / 2, width = 11, height = 21\<rparr>
      normalizedScenarioSvg = measuredScenarioSvg"
    by (simp add: setMeasurements_def normalizedScenarioSvg_def measuredScenarioSvg_def
        viewBoxString_def stubPlatform_def stubNumberToString_def numberTable_def)
  have same: "setDocumentElement [scenarioSvg] normalizedScenarioSvg = [normalizedScenarioSvg]"
    by (simp add: scenarioSvg_def)
  have "loadString stubPlatform (stubSerialize [scenarioSvg]) (constructor []) =
      transformMeasurements stubPlatform ?s"
    using loadString_valid[OF stubParse_scenarioSvg root, of "constructor []"] same
    by (simp add: conv)
  also have "\<dots> = (Inr (),
      \<lparr>body = [], cachedImage = None, svgDom = Some [measuredScenarioSvg],
       svgTag = Some measuredScenarioSvg,
       measurements = \<lparr>x = 1 / 2, y = 3 / 2, width = 11, height = 21\<rparr>\<rparr>)"
    using transformMeasurements_success[of ?s "[normalizedScenarioSvg]" normalizedScenarioSvg
        stubPlatform ?box normalizedScenarioSvg]
    by (simp add: box reparsed el enlarged written constructor_def)
  finally show ?thesis .
qed

end
